theory Spec2Isabelle
  imports Complex_Main
begin

chapter \<open>PV power predictor: embedding of the backend\<close>

text \<open>
  The backend is three Python modules: \<open>model_handler.py\<close> (the weighted ensemble and
  the handler that loads it, repairs input tables and predicts), \<open>nasa_power_client.py\<close>
  (validation, query construction and fetching with retries) and \<open>app.py\<close> (the HTTP
  endpoints). Each function is a HOL function of the same name. A function that can
  raise returns \<open>exn + 'a\<close> with the exception on the left; a method that mutates its
  object returns the object as the call leaves it; what a function does to the outside
  world (requests, sleeps, warnings) is returned as a log. Messages that interpolate
  values are shortened to their fixed part.
\<close>

section \<open>Floating-point cells\<close>

text \<open>
  A numpy/pandas float64 cell is a finite number or one of the three special values;
  the special values follow IEEE 754 as numpy applies it. Rounding of finite results is
  outside the model: a finite result is the exact one. Overflow is modelled where a
  claim depends on which cells end up finite, in the sums behind the column means
  (\<open>fadd\<close>, \<open>fsum\<close>); \<open>cadd\<close> and \<open>cmul\<close> add and multiply finite values exactly.
\<close>

datatype cell = Fin real | PInf | NInf | NaN

fun isnan :: "cell \<Rightarrow> bool" where
  "isnan NaN = True"
| "isnan _ = False"

fun isinf :: "cell \<Rightarrow> bool" where
  "isinf PInf = True"
| "isinf NInf = True"
| "isinf _ = False"

fun isfinite :: "cell \<Rightarrow> bool" where
  "isfinite (Fin _) = True"
| "isfinite _ = False"

text \<open>The infinity with the sign of \<open>s\<close>; \<open>0 * inf\<close> is NaN.\<close>

definition inf_of_sign :: "real \<Rightarrow> cell" where
  "inf_of_sign s = (if s = 0 then NaN else if 0 < s then PInf else NInf)"

fun cadd :: "cell \<Rightarrow> cell \<Rightarrow> cell" where
  "cadd NaN _ = NaN"
| "cadd _ NaN = NaN"
| "cadd (Fin a) (Fin b) = Fin (a + b)"
| "cadd PInf NInf = NaN"
| "cadd NInf PInf = NaN"
| "cadd PInf _ = PInf"
| "cadd _ PInf = PInf"
| "cadd NInf _ = NInf"
| "cadd _ NInf = NInf"

fun cneg :: "cell \<Rightarrow> cell" where
  "cneg (Fin a) = Fin (- a)"
| "cneg PInf = NInf"
| "cneg NInf = PInf"
| "cneg NaN = NaN"

fun cmul :: "cell \<Rightarrow> cell \<Rightarrow> cell" where
  "cmul NaN _ = NaN"
| "cmul _ NaN = NaN"
| "cmul (Fin a) (Fin b) = Fin (a * b)"
| "cmul (Fin a) PInf = inf_of_sign a"
| "cmul (Fin a) NInf = inf_of_sign (- a)"
| "cmul PInf (Fin b) = inf_of_sign b"
| "cmul NInf (Fin b) = inf_of_sign (- b)"
| "cmul PInf PInf = PInf"
| "cmul NInf NInf = PInf"
| "cmul PInf NInf = NInf"
| "cmul NInf PInf = NInf"

text \<open>Division of a sum by a positive count, as in a mean.\<close>

fun cdivn :: "cell \<Rightarrow> nat \<Rightarrow> cell" where
  "cdivn (Fin a) n = Fin (a / real n)"
| "cdivn c n = c"

text \<open>\<open>np.maximum(x, 0)\<close>: NaN propagates, everything below zero becomes zero.\<close>

fun maximum0 :: "cell \<Rightarrow> cell" where
  "maximum0 (Fin a) = Fin (max a 0)"
| "maximum0 PInf = PInf"
| "maximum0 NInf = Fin 0"
| "maximum0 NaN = NaN"

text \<open>The comparison \<open>lo <= x <= hi\<close> of Python floats: false as soon as NaN takes part.\<close>

fun between :: "real \<Rightarrow> cell \<Rightarrow> real \<Rightarrow> bool" where
  "between lo (Fin a) hi = (lo \<le> a \<and> a \<le> hi)"
| "between lo _ hi = False"

primrec csum :: "cell list \<Rightarrow> cell" where
  "csum [] = Fin 0"
| "csum (x # xs) = cadd x (csum xs)"

text \<open>
  float64 addition with overflow: an exact sum of magnitude at least \<open>2^1024 - 2^970\<close>
  (the largest float plus half a unit in its last place) rounds to an infinity.
\<close>

definition overflow_threshold :: real where
  "overflow_threshold = 2 ^ 1024 - 2 ^ 970"

definition overflow :: "real \<Rightarrow> cell" where
  "overflow x =
     (if overflow_threshold \<le> x then PInf
      else if x \<le> - overflow_threshold then NInf
      else Fin x)"

fun fadd :: "cell \<Rightarrow> cell \<Rightarrow> cell" where
  "fadd (Fin a) (Fin b) = overflow (a + b)"
| "fadd a b = cadd a b"

text \<open>
  \<open>ndarray.sum()\<close> of a column: the running sum from the left, starting at 0. numpy
  adds a long column block by block; the order of the additions matters to the result
  only through rounding and through the overflow of a partial sum.
\<close>

definition fsum :: "cell list \<Rightarrow> cell" where
  "fsum xs = foldl fadd (Fin 0) xs"

section \<open>Exceptions\<close>

datatype exn_class =
  ValueError | TypeError | KeyError | IndexError | AttributeError | RuntimeError
  | FileNotFoundError | StopIteration | OverflowError | RequestException | OtherException

text \<open>An exception is its class and its message; \<open>OtherException\<close> is a plain \<open>Exception\<close>.\<close>

datatype exn = Exn exn_class string

fun exn_class_of :: "exn \<Rightarrow> exn_class" where
  "exn_class_of (Exn c m) = c"

text \<open>\<open>str(e)\<close>: the message; a \<open>KeyError\<close> prints the repr of its key.\<close>

definition squote :: string where
  "squote = [CHR 0x27]"

fun str_exn :: "exn \<Rightarrow> string" where
  "str_exn (Exn KeyError m) = squote @ m @ squote"
| "str_exn (Exn c m) = m"

section \<open>Tables\<close>

record date =
  year :: nat
  month :: nat
  day :: nat

text \<open>
  A pandas DataFrame of float columns: the row labels (a date, or a position for a frame
  built without an index) and the named columns in order. In a well-formed frame every
  column is as long as the index.
\<close>

datatype row_label = Day date | Pos nat

record dataframe =
  index :: "row_label list"
  cols :: "(string \<times> cell list) list"

definition wf_df :: "dataframe \<Rightarrow> bool" where
  "wf_df df = list_all (\<lambda>nc. length (snd nc) = length (index df)) (cols df)"

definition df_len :: "dataframe \<Rightarrow> nat" where
  "df_len df = length (index df)"

definition df_empty :: "dataframe \<Rightarrow> bool" where
  "df_empty df = (index df = [] \<or> cols df = [])"

text \<open>\<open>df.values\<close>: the rows of the frame.\<close>

definition df_values :: "dataframe \<Rightarrow> cell list list" where
  "df_values df = map (\<lambda>i. map (\<lambda>nc. snd nc ! i) (cols df)) [0..<length (index df)]"

section \<open>Preprocessing (\<open>PVModelHandler.preprocess_data\<close>)\<close>

text \<open>
  \<open>Series.mean()\<close> (pandas' \<open>nanmean\<close>): the cells that are NaN count as 0 in the sum
  and are left out of the count; infinities stay in; the sum is a float64 sum and can
  overflow; the mean of no value is NaN.
\<close>

definition column_mean :: "cell list \<Rightarrow> cell" where
  "column_mean c =
     (let count = length (filter (\<lambda>x. \<not> isnan x) c);
          the_sum = fsum (map (\<lambda>x. if isnan x then Fin 0 else x) c)
      in if count = 0 then NaN else cdivn the_sum count)"

definition fillna :: "cell list \<Rightarrow> cell \<Rightarrow> cell list" where
  "fillna c m = map (\<lambda>x. if isnan x then m else x) c"

text \<open>\<open>df.fillna(df.mean())\<close>: each column is filled with its own mean.\<close>

definition fillna_mean :: "dataframe \<Rightarrow> dataframe" where
  "fillna_mean df = df\<lparr>cols := map (\<lambda>nc. (fst nc, fillna (snd nc) (column_mean (snd nc)))) (cols df)\<rparr>"

text \<open>\<open>df.replace([np.inf, -np.inf], np.nan)\<close>.\<close>

definition replace_inf_col :: "cell list \<Rightarrow> cell list" where
  "replace_inf_col c = map (\<lambda>x. if isinf x then NaN else x) c"

definition replace_inf :: "dataframe \<Rightarrow> dataframe" where
  "replace_inf df = df\<lparr>cols := map (\<lambda>nc. (fst nc, replace_inf_col (snd nc))) (cols df)\<rparr>"

text \<open>\<open>inf_mask.any().any()\<close>: some cell of the frame is infinite.\<close>

definition any_inf :: "dataframe \<Rightarrow> bool" where
  "any_inf df = list_ex (\<lambda>nc. list_ex isinf (snd nc)) (cols df)"

definition preprocess_data :: "dataframe \<Rightarrow> dataframe" where
  "preprocess_data df =
     (let df_processed = fillna_mean df
      in if any_inf df_processed then fillna_mean (replace_inf df_processed)
         else df_processed)"

text \<open>
  The repair as the specification words it: the mean of a column's finite values, and
  the column in which every cell that is not finite holds that mean.
\<close>

fun finite_values :: "cell list \<Rightarrow> real list" where
  "finite_values [] = []"
| "finite_values (Fin r # xs) = r # finite_values xs"
| "finite_values (_ # xs) = finite_values xs"





section \<open>Models and the weighted ensemble (\<open>EnsembleModel\<close>)\<close>

text \<open>
  A fitted regressor is opaque: its \<open>predict\<close> maps the input (a frame, or the array of
  its rows) to a one-dimensional float array or raises. Of its attributes the handler
  reads the class name, \<open>n_features_in_\<close> and the shape of \<open>coef_\<close>, each of which
  may be absent.
\<close>

datatype model_input = Frame dataframe | Matrix "cell list list"

record regressor =
  class_name :: string
  predict_fn :: "model_input \<Rightarrow> exn + cell list"
  n_features_in :: "nat option"
  coef_shape :: "nat list option"

text \<open>A numpy value: the integer 0 that \<open>sum\<close> starts from is a scalar.\<close>

datatype ndarray = Scalar cell | Array "cell list"

text \<open>Addition with numpy's broadcasting of one-dimensional arrays.\<close>

fun np_add :: "ndarray \<Rightarrow> ndarray \<Rightarrow> exn + ndarray" where
  "np_add (Scalar a) (Scalar b) = Inr (Scalar (cadd a b))"
| "np_add (Scalar a) (Array ys) = Inr (Array (map (cadd a) ys))"
| "np_add (Array xs) (Scalar b) = Inr (Array (map (\<lambda>x. cadd x b) xs))"
| "np_add (Array xs) (Array ys) =
     (if length xs = length ys then Inr (Array (map2 cadd xs ys))
      else if length xs = 1 then Inr (Array (map (cadd (hd xs)) ys))
      else if length ys = 1 then Inr (Array (map (\<lambda>x. cadd x (hd ys)) xs))
      else Inl (Exn ValueError ''operands could not be broadcast together''))"

fun np_maximum0 :: "ndarray \<Rightarrow> ndarray" where
  "np_maximum0 (Scalar a) = Scalar (maximum0 a)"
| "np_maximum0 (Array xs) = Array (map maximum0 xs)"

text \<open>
  The ensemble keeps the two dictionaries of the artifact (association lists in
  insertion order) and the list of model names taken at construction.
\<close>

record ensemble_model =
  models :: "(string \<times> regressor) list"
  weights :: "(string \<times> cell) list"
  model_names :: "string list"

definition EnsembleModel_init ::
    "(string \<times> regressor) list \<Rightarrow> (string \<times> cell) list \<Rightarrow> ensemble_model" where
  "EnsembleModel_init ms ws = \<lparr>models = ms, weights = ws, model_names = map fst ms\<rparr>"

definition to_array :: "model_input \<Rightarrow> model_input" where
  "to_array X = (case X of Frame df \<Rightarrow> Matrix (df_values df) | Matrix rows \<Rightarrow> Matrix rows)"

text \<open>The first loop of \<open>predict\<close>: every base model predicts; the first exception escapes.\<close>

fun predict_all :: "(string \<times> regressor) list \<Rightarrow> model_input \<Rightarrow> exn + (string \<times> cell list) list" where
  "predict_all [] X = Inr []"
| "predict_all (nm # rest) X =
     (case predict_fn (snd nm) X of
        Inl e \<Rightarrow> Inl e
      | Inr p \<Rightarrow>
          (case predict_all rest X of
             Inl e \<Rightarrow> Inl e
           | Inr ps \<Rightarrow> Inr ((fst nm, p) # ps)))"

text \<open>
  \<open>sum(self.weights[name] * predictions[name] for name in self.model_names)\<close>: the
  running sum starts at 0; a name missing from a dictionary raises \<open>KeyError\<close> when the
  generator reaches it.
\<close>

fun weighted_sum ::
    "(string \<rightharpoonup> cell) \<Rightarrow> (string \<rightharpoonup> cell list) \<Rightarrow> string list \<Rightarrow> ndarray \<Rightarrow> exn + ndarray" where
  "weighted_sum w p [] acc = Inr acc"
| "weighted_sum w p (name # names) acc =
     (case w name of
        None \<Rightarrow> Inl (Exn KeyError name)
      | Some wt \<Rightarrow>
          (case p name of
             None \<Rightarrow> Inl (Exn KeyError name)
           | Some pr \<Rightarrow>
               (case np_add acc (Array (map (cmul wt) pr)) of
                  Inl e \<Rightarrow> Inl e
                | Inr acc' \<Rightarrow> weighted_sum w p names acc')))"

definition ensemble_predict :: "ensemble_model \<Rightarrow> model_input \<Rightarrow> exn + ndarray" where
  "ensemble_predict em X =
     (case predict_all (models em) (to_array X) of
        Inl e \<Rightarrow> Inl e
      | Inr predictions \<Rightarrow>
          weighted_sum (map_of (weights em)) (map_of predictions) (model_names em) (Scalar (Fin 0)))"

text \<open>\<open>n_features_in_\<close> of the ensemble: read from the first base model.\<close>

definition ensemble_n_features :: "ensemble_model \<Rightarrow> exn + nat option" where
  "ensemble_n_features em =
     (case models em of
        [] \<Rightarrow> Inl (Exn StopIteration [])
      | nm # _ \<Rightarrow> Inr (n_features_in (snd nm)))"

record ensemble_info =
  base_models :: "string list"
  info_weights :: "(string \<times> cell) list"
  n_models :: nat

definition get_model_info :: "ensemble_model \<Rightarrow> ensemble_info" where
  "get_model_info em =
     \<lparr>base_models = map fst (models em), info_weights = weights em, n_models = length (models em)\<rparr>"


section \<open>The handler (\<open>PVModelHandler\<close>)\<close>

datatype model = Direct regressor | Ensemble ensemble_model

record model_info =
  model_type :: string
  feature_count :: "nat option"
  info_ensemble :: "ensemble_info option"

record handler =
  model_path :: string
  model :: "model option"
  model_info :: "model_info option"
  is_loaded :: bool
  ensemble_info :: "ensemble_info option"

definition model_predict :: "model \<Rightarrow> dataframe \<Rightarrow> exn + ndarray" where
  "model_predict m df =
     (case m of
        Direct r \<Rightarrow> (case predict_fn r (Frame df) of Inl e \<Rightarrow> Inl e | Inr ps \<Rightarrow> Inr (Array ps))
      | Ensemble em \<Rightarrow> ensemble_predict em (Frame df))"

text \<open>\<open>validate_input_data\<close>: only an empty frame is refused; the rest are warnings.\<close>

definition validate_input_data :: "handler \<Rightarrow> dataframe \<Rightarrow> exn + bool" where
  "validate_input_data h df =
     (if df_empty df then Inl (Exn ValueError ''Input data is empty'') else Inr True)"

text \<open>
  \<open>predict\<close>. Every \<open>model\<close> of this type has a \<open>predict\<close> attribute, so the
  \<open>hasattr\<close> guard has no failing branch. After the length check the method prints
  from \<open>model_info\<close> and, for an ensemble, from \<open>ensemble_info\<close>; either being
  \<open>None\<close> raises there.
\<close>

definition predict :: "handler \<Rightarrow> dataframe \<Rightarrow> exn + cell list" where
  "predict h df =
     (if \<not> is_loaded h then Inl (Exn RuntimeError ''Model is not loaded'')
      else case model h of
        None \<Rightarrow> Inl (Exn RuntimeError ''Model object is None'')
      | Some m \<Rightarrow>
          (case validate_input_data h df of
             Inl e \<Rightarrow> Inl e
           | Inr ok \<Rightarrow>
               (case model_predict m (preprocess_data df) of
                  Inl e \<Rightarrow> Inl e
                | Inr raw \<Rightarrow>
                    (case np_maximum0 raw of
                       Scalar c \<Rightarrow> Inl (Exn TypeError ''object has no len()'')
                     | Array predictions \<Rightarrow>
                         if length predictions \<noteq> df_len df
                         then Inl (Exn ValueError ''Prediction length mismatch'')
                         else (case model_info h of
                                 None \<Rightarrow> Inl (Exn AttributeError ''NoneType object has no attribute get'')
                               | Some mi \<Rightarrow>
                                   (case m of
                                      Direct r \<Rightarrow> Inr predictions
                                    | Ensemble em \<Rightarrow>
                                        (case ensemble_info h of
                                           None \<Rightarrow> Inl (Exn TypeError ''NoneType object is not subscriptable'')
                                         | Some ei \<Rightarrow> Inr predictions)))))))"

subsection \<open>Financial figures and the summary\<close>

definition calculate_financial_savings :: "cell list \<Rightarrow> cell \<Rightarrow> cell list" where
  "calculate_financial_savings predictions_kwh mad_per_kwh = map (\<lambda>p. cmul p mad_per_kwh) predictions_kwh"

subsection \<open>Health check (\<open>validate_model_health\<close>)\<close>

definition digit_char :: "nat \<Rightarrow> char" where
  "digit_char n = ''0123456789'' ! n"

fun string_of_nat :: "nat \<Rightarrow> string" where
  "string_of_nat n = (if n < 10 then [digit_char n] else string_of_nat (n div 10) @ [digit_char (n mod 10)])"

declare string_of_nat.simps [simp del]

text \<open>The \<open>while\<close> loop that pads the probe with dummy columns up to the expected width.\<close>

function pad_features :: "(string \<times> cell list) list \<Rightarrow> nat \<Rightarrow> (string \<times> cell list) list" where
  "pad_features cs n =
     (if length cs < n
      then pad_features (cs @ [(''dummy_feature_'' @ string_of_nat (length cs), [Fin 1])]) n
      else cs)"
  by pat_completeness auto
termination
  by (relation "measure (\<lambda>(cs, n). n - length cs)") auto

definition test_data :: "handler \<Rightarrow> dataframe" where
  "test_data h =
     (let base = [(''ALLSKY_SFC_SW_DWN'', [Fin 20.5]), (''T2M'', [Fin 25]), (''CLOUD_AMT'', [Fin 30]),
                  (''WS2M'', [Fin 3.5]), (''RH2M'', [Fin 60])]
      in \<lparr>index = [Pos 0],
          cols = (case model_info h of
                    None \<Rightarrow> base
                  | Some mi \<Rightarrow>
                      (case feature_count mi of
                         None \<Rightarrow> base
                       | Some n \<Rightarrow> if n = 0 then base else pad_features base n))\<rparr>)"

record health =
  healthy :: bool
  test_prediction :: "cell option"
  message :: "string option"
  error :: "string option"
  ensemble_status :: "(string list \<times> (string \<times> cell) list) option"

definition unhealthy :: "string \<Rightarrow> health" where
  "unhealthy msg =
     \<lparr>healthy = False, test_prediction = None, message = None, error = Some msg, ensemble_status = None\<rparr>"

definition validate_model_health :: "handler \<Rightarrow> health" where
  "validate_model_health h =
     (if \<not> is_loaded h then unhealthy ''Model not loaded''
      else case model h of
        None \<Rightarrow> unhealthy ''Model object is None''
      | Some m \<Rightarrow>
          (case predict h (test_data h) of
             Inl e \<Rightarrow> unhealthy (''Model validation failed: '' @ str_exn e)
           | Inr ps \<Rightarrow>
               (case ps of
                  [p] \<Rightarrow>
                    if \<not> isnan p
                    then \<lparr>healthy = True, test_prediction = Some p,
                          message = Some ''Model validation successful'', error = None,
                          ensemble_status =
                            (case m of
                               Direct r \<Rightarrow> None
                             | Ensemble em \<Rightarrow> Some (map fst (models em), weights em))\<rparr>
                    else unhealthy ''Invalid test prediction''
                | _ \<Rightarrow> unhealthy ''Invalid test prediction'')))"

text \<open>Non-negativity of a float; NaN compares false with everything.\<close>

fun nonneg :: "cell \<Rightarrow> bool" where
  "nonneg (Fin a) = (0 \<le> a)"
| "nonneg PInf = True"
| "nonneg NInf = False"
| "nonneg NaN = False"

section \<open>Loading the artifact (\<open>load_model\<close>, \<open>reload_model\<close>)\<close>

text \<open>
  What \<open>pickle.load\<close> can return: an object with a \<open>predict\<close> attribute (a regressor,
  or a pickled \<open>EnsembleModel\<close>), a dictionary, or anything else (named by its type).
  Of a dictionary the loader reads the keys \<open>models\<close> and \<open>weights\<close> (when present,
  a dictionary of regressors and a dictionary of floats) and the recognised single-model
  keys; under any other key the value either has a \<open>predict\<close> attribute or not.
\<close>

record pickled_dict =
  b_models :: "(string \<times> regressor) list option"
  b_weights :: "(string \<times> cell) list option"
  b_other :: "(string \<times> model option) list"

datatype loaded_object = PredictObject model | DictObject pickled_dict | OtherObject string

text \<open>A path holds no file, a file that cannot be read or unpickled, or a pickle.\<close>

datatype file_content = Unreadable exn | Pickle loaded_object

type_synonym filesystem = "string \<Rightarrow> file_content option"

definition possible_keys :: "string list" where
  "possible_keys = [''model'', ''trained_model'', ''clf'', ''regressor'', ''estimator'']"

fun find_model :: "(string \<times> model option) list \<Rightarrow> string list \<Rightarrow> model option" where
  "find_model d [] = None"
| "find_model d (k # ks) =
     (case map_of d k of
        Some (Some m) \<Rightarrow> Some m
      | _ \<Rightarrow> find_model d ks)"

text \<open>The feature count read off \<open>coef_.shape\<close>.\<close>

definition coef_feature_count :: "nat list \<Rightarrow> exn + nat option" where
  "coef_feature_count sh =
     (if length sh = 1 then Inr (Some (sh ! 0))
      else if 2 \<le> length sh then Inr (Some (sh ! 1))
      else Inl (Exn IndexError ''tuple index out of range''))"

definition describe_model :: "model \<Rightarrow> exn + string \<times> nat option" where
  "describe_model m =
     (case m of
        Ensemble em \<Rightarrow>
          (case ensemble_n_features em of
             Inl e \<Rightarrow> Inl e
           | Inr fc \<Rightarrow> Inr (''WeightedEnsemble'', fc))
      | Direct r \<Rightarrow>
          (case n_features_in r of
             Some n \<Rightarrow> Inr (class_name r, Some n)
           | None \<Rightarrow>
               (case coef_shape r of
                  None \<Rightarrow> Inr (class_name r, None)
                | Some sh \<Rightarrow>
                    (case coef_feature_count sh of
                       Inl e \<Rightarrow> Inl e
                     | Inr fc \<Rightarrow> Inr (class_name r, fc)))))"

text \<open>
  \<open>_extract_model_info\<close>. The fields of \<open>model_info\<close> that no operation reads
  (library version, load time, file size) are left out.
\<close>

definition extract_model_info :: "handler \<Rightarrow> exn + handler" where
  "extract_model_info h =
     (case model h of
        None \<Rightarrow> Inr h
      | Some m \<Rightarrow>
          (case describe_model m of
             Inl e \<Rightarrow> Inl e
           | Inr d \<Rightarrow>
               Inr (h\<lparr>model_info := Some \<lparr>model_type = fst d, feature_count = snd d,
                                           info_ensemble = ensemble_info h\<rparr>\<rparr>)))"

text \<open>
  \<open>load_model\<close> returns the handler as the call leaves it and the exception it raises,
  if any. The \<open>except\<close> clause clears \<open>model\<close> and \<open>is_loaded\<close> and re-raises; what
  the \<open>try\<close> block had already assigned to other attributes stays.
\<close>

definition load_failed :: "handler \<Rightarrow> exn \<Rightarrow> handler \<times> exn option" where
  "load_failed h e = (h\<lparr>model := None, is_loaded := False\<rparr>, Some e)"

definition finish_load :: "handler \<Rightarrow> handler \<times> exn option" where
  "finish_load h =
     (case extract_model_info (h\<lparr>is_loaded := True\<rparr>) of
        Inl e \<Rightarrow> load_failed (h\<lparr>is_loaded := True\<rparr>) e
      | Inr h' \<Rightarrow> (h', None))"

definition load_model :: "filesystem \<Rightarrow> handler \<Rightarrow> handler \<times> exn option" where
  "load_model fs h =
     (case fs (model_path h) of
        None \<Rightarrow> load_failed h (Exn FileNotFoundError (''Model file not found: '' @ model_path h))
      | Some (Unreadable e) \<Rightarrow> load_failed h e
      | Some (Pickle loaded) \<Rightarrow>
          (case loaded of
             PredictObject m \<Rightarrow> finish_load (h\<lparr>model := Some m\<rparr>)
           | DictObject d \<Rightarrow>
               (case b_models d of
                  Some ms \<Rightarrow>
                    (case b_weights d of
                       Some ws \<Rightarrow>
                         finish_load (h\<lparr>model := Some (Ensemble (EnsembleModel_init ms ws)),
                                        ensemble_info := Some (get_model_info (EnsembleModel_init ms ws))\<rparr>)
                     | None \<Rightarrow>
                         (case find_model (b_other d) possible_keys of
                            Some m \<Rightarrow> finish_load (h\<lparr>model := Some m\<rparr>)
                          | None \<Rightarrow> load_failed h (Exn ValueError ''No model with predict method found'')))
                | None \<Rightarrow>
                    (case find_model (b_other d) possible_keys of
                       Some m \<Rightarrow> finish_load (h\<lparr>model := Some m\<rparr>)
                     | None \<Rightarrow> load_failed h (Exn ValueError ''No model with predict method found'')))
           | OtherObject ty \<Rightarrow>
               load_failed h (Exn ValueError (''Loaded object type '' @ ty @ '' is not supported.''))))"


text \<open>The constructor: a handler exists only if the first load succeeds.\<close>

definition PVModelHandler_init :: "filesystem \<Rightarrow> string \<Rightarrow> exn + handler" where
  "PVModelHandler_init fs path =
     (case load_model fs \<lparr>model_path = path, model = None, model_info = None,
                            is_loaded = False, ensemble_info = None\<rparr> of
        (h, None) \<Rightarrow> Inr h
      | (h, Some e) \<Rightarrow> Inl e)"



section \<open>Dates (\<open>datetime\<close>)\<close>

text \<open>
  The proleptic Gregorian calendar as CPython's \<open>datetime\<close> counts it: the ordinal of
  a date is its day number, 0001-01-01 being day 1. A \<open>datetime\<close> is a date and the
  microseconds since midnight; it is compared, and subtracted, through the microseconds
  since the start of day 0.
\<close>

definition is_leap :: "nat \<Rightarrow> bool" where
  "is_leap y = (y mod 4 = 0 \<and> (y mod 100 \<noteq> 0 \<or> y mod 400 = 0))"

definition days_in_month :: "nat \<Rightarrow> nat \<Rightarrow> nat" where
  "days_in_month y m =
     (if m = 2 then (if is_leap y then 29 else 28)
      else if m = 4 \<or> m = 6 \<or> m = 9 \<or> m = 11 then 30 else 31)"

definition days_before_year :: "nat \<Rightarrow> int" where
  "days_before_year y =
     (let y1 = int y - 1 in y1 * 365 + y1 div 4 - y1 div 100 + y1 div 400)"

definition days_before_month :: "nat \<Rightarrow> nat \<Rightarrow> int" where
  "days_before_month y m = int (sum_list (map (days_in_month y) [1..<m]))"

definition toordinal :: "date \<Rightarrow> int" where
  "toordinal d = days_before_year (year d) + days_before_month (year d) (month d) + int (day d)"

record datetime =
  on_date :: date
  micros :: nat

definition day_micros :: int where
  "day_micros = 86400000000"

definition instant :: "datetime \<Rightarrow> int" where
  "instant t = toordinal (on_date t) * day_micros + int (micros t)"

definition midnight :: "date \<Rightarrow> datetime" where
  "midnight d = \<lparr>on_date = d, micros = 0\<rparr>"

text \<open>\<open>(a - b).days\<close>: a \<open>timedelta\<close> is normalised with the days rounded down.\<close>

definition delta_days :: "datetime \<Rightarrow> datetime \<Rightarrow> int" where
  "delta_days a b = (instant a - instant b) div day_micros"

subsection \<open>\<open>datetime.strptime\<close>\<close>

text \<open>
  \<open>strptime\<close> turns the format into a regular expression and matches it at the start
  of the string: \<open>%Y\<close> is four digits, \<open>%m\<close> is \<open>1[0-2]|0[1-9]|[1-9]\<close>, \<open>%d\<close> is
  \<open>3[0-1]|[1-2]\d|0[1-9]|[1-9]| [1-9]\<close> (the leading zero of month and day is
  optional), any other character stands for itself. The match is the first one in the
  order a backtracking matcher tries the alternatives; text left over after it, or
  a day the month does not have, is a \<open>ValueError\<close>. Strings are ASCII.
\<close>

datatype directive = DYear | DMonth | DDay | Lit char

definition digit_val :: "char \<Rightarrow> nat option" where
  "digit_val c = map_of (zip ''0123456789'' [0, 1, 2, 3, 4, 5, 6, 7, 8, 9]) c"

text \<open>One alternative of a directive: a first character, then one of a range.\<close>

definition one_digit :: "nat \<Rightarrow> nat \<Rightarrow> string \<Rightarrow> (nat \<times> string) list" where
  "one_digit lo hi s =
     (case s of
        [] \<Rightarrow> []
      | c # rest \<Rightarrow>
          (case digit_val c of
             None \<Rightarrow> []
           | Some v \<Rightarrow> if lo \<le> v \<and> v \<le> hi then [(v, rest)] else []))"

definition two_digits :: "nat \<Rightarrow> nat \<Rightarrow> nat \<Rightarrow> nat \<Rightarrow> string \<Rightarrow> (nat \<times> string) list" where
  "two_digits lo1 hi1 lo2 hi2 s =
     concat (map (\<lambda>a. map (\<lambda>b. (10 * fst a + fst b, snd b)) (one_digit lo2 hi2 (snd a)))
                 (one_digit lo1 hi1 s))"

definition space_digit :: "string \<Rightarrow> (nat \<times> string) list" where
  "space_digit s = (case s of [] \<Rightarrow> [] | c # rest \<Rightarrow> if c = CHR '' '' then one_digit 1 9 rest else [])"

fun alternatives :: "directive \<Rightarrow> string \<Rightarrow> (nat list \<times> string) list" where
  "alternatives DYear s =
     concat (map (\<lambda>a. map (\<lambda>b. ([100 * fst a + fst b], snd b)) (two_digits 0 9 0 9 (snd a)))
                 (two_digits 0 9 0 9 s))"
| "alternatives DMonth s =
     map (\<lambda>a. ([fst a], snd a)) (two_digits 1 1 0 2 s @ two_digits 0 0 1 9 s @ one_digit 1 9 s)"
| "alternatives DDay s =
     map (\<lambda>a. ([fst a], snd a))
       (two_digits 3 3 0 1 s @ two_digits 1 2 0 9 s @ two_digits 0 0 1 9 s @ one_digit 1 9 s
        @ space_digit s)"
| "alternatives (Lit c) s = (case s of [] \<Rightarrow> [] | x # rest \<Rightarrow> if x = c then [([], rest)] else [])"

fun matches :: "directive list \<Rightarrow> string \<Rightarrow> (nat list \<times> string) list" where
  "matches [] s = [([], s)]"
| "matches (d # ds) s =
     concat (map (\<lambda>a. map (\<lambda>b. (fst a @ fst b, snd b)) (matches ds (snd a))) (alternatives d s))"

definition strptime :: "string \<Rightarrow> directive list \<Rightarrow> exn + datetime" where
  "strptime s fmt =
     (case matches fmt s of
        [] \<Rightarrow> Inl (Exn ValueError ''time data does not match format'')
      | found # others \<Rightarrow>
          if snd found \<noteq> [] then Inl (Exn ValueError ''unconverted data remains'')
          else (case fst found of
                  [y, m, d] \<Rightarrow>
                    if y < 1 then Inl (Exn ValueError ''year is out of range'')
                    else if days_in_month y m < d then Inl (Exn ValueError ''day is out of range for month'')
                    else Inr (midnight \<lparr>year = y, month = m, day = d\<rparr>)
                | _ \<Rightarrow> Inl (Exn ValueError ''time data does not match format'')))"

text \<open>The two formats of the backend: \<open>%Y%m%d\<close> and \<open>%Y-%m-%d\<close>.\<close>

definition fmt_compact :: "directive list" where
  "fmt_compact = [DYear, DMonth, DDay]"

definition fmt_dashed :: "directive list" where
  "fmt_dashed = [DYear, Lit (CHR ''-''), DMonth, Lit (CHR ''-''), DDay]"

section \<open>The weather data client (\<open>NASAPowerGEOSITClient\<close>)\<close>

record client =
  min_date :: datetime
  max_date_instant :: int

text \<open>The constructor: the maximum date is three days before the clock's \<open>now\<close>.\<close>

definition client_init :: "datetime \<Rightarrow> client" where
  "client_init now =
     \<lparr>min_date = midnight \<lparr>year = 2020, month = 1, day = 1\<rparr>,
      max_date_instant = instant now - 3 * day_micros\<rparr>"

definition validate_coordinates :: "cell \<Rightarrow> cell \<Rightarrow> exn + bool" where
  "validate_coordinates latitude longitude =
     (if \<not> between (- 90) latitude 90 then Inl (Exn ValueError ''Latitude must be between -90 and 90'')
      else if \<not> between (- 180) longitude 180 then Inl (Exn ValueError ''Longitude must be between -180 and 180'')
      else Inr True)"

text \<open>
  \<open>validate_dates\<close> returns the warnings it issued, or the \<open>ValueError\<close> it raised;
  \<open>now\<close> is the clock at the call.
\<close>

definition validate_dates :: "client \<Rightarrow> datetime \<Rightarrow> string \<Rightarrow> string \<Rightarrow> exn + string list" where
  "validate_dates c now start_date end_date =
     (case strptime start_date fmt_compact of
        Inl e \<Rightarrow> Inl (Exn ValueError ''Dates must be in YYYYMMDD format'')
      | Inr start \<Rightarrow>
          (case strptime end_date fmt_compact of
             Inl e \<Rightarrow> Inl (Exn ValueError ''Dates must be in YYYYMMDD format'')
           | Inr end \<Rightarrow>
               if instant start > instant end
               then Inl (Exn ValueError ''Start date must be before end date'')
               else if instant start < instant (min_date c)
               then Inl (Exn ValueError ''GEOS-IT data starts from 2020-01-01'')
               else Inr ((if instant end > max_date_instant c
                          then [''GEOS-IT data may not be available after the maximum date'']
                          else [])
                         @ (if delta_days now end < 3
                            then [''GEOS-IT typically has a 3-4 day delay'']
                            else []))))"

subsection \<open>Queries and parameter sets\<close>

record query =
  q_temporal :: string
  q_start :: string
  q_end :: string
  q_latitude :: cell
  q_longitude :: cell
  q_community :: string
  q_parameters :: "string list"
  q_format :: string

definition essential :: "string list" where
  "essential = [''ALLSKY_SFC_SW_DWN'', ''CLRSKY_SFC_SW_DWN'', ''T2M_MAX'', ''T2M_MIN'', ''ALLSKY_KT'',
                ''CLOUD_AMT'', ''AOD_55'', ''WS2M'']"

definition important :: "string list" where
  "important = [''T2M'', ''T2M_MAX'', ''T2M_MIN'', ''WS2M'', ''PRECTOTCORR'', ''RH2M'', ''ALLSKY_KT'',
                ''ALLSKY_SFC_SW_DNI'', ''CLRSKY_SFC_SW_DNI'', ''ALLSKY_SFC_SW_DIFF'', ''CLRSKY_SFC_SW_DIFF'',
                ''ALLSKY_SFC_SW_DWN'', ''CLRSKY_SFC_SW_DWN'', ''ALLSKY_SFC_LW_DWN'', ''CLRSKY_SFC_LW_DWN'',
                ''ALLSKY_SFC_LW_UP'', ''CLRSKY_SFC_LW_UP'']"

definition additional :: "string list" where
  "additional = [''WD2M'', ''WS10M'', ''T10M'', ''PRECTOTCORR'', ''QV2M'', ''ALLSKY_SFC_SW_DNI'',
                 ''CLRSKY_SFC_SW_DNI'', ''SZA'']"

definition pv_parameters :: "(string \<times> string list) list" where
  "pv_parameters = [(''essential'', essential), (''important'', important), (''additional'', additional)]"

text \<open>\<open>list(dict.fromkeys(xs))\<close>: duplicates removed, first occurrences kept in order.\<close>

definition get_all_pv_parameters :: "string list" where
  "get_all_pv_parameters = rev (remdups (rev (concat (map snd pv_parameters))))"

definition select_parameters :: "string \<Rightarrow> string list option \<Rightarrow> string list" where
  "select_parameters parameter_set custom_parameters =
     (case custom_parameters of
        Some ps \<Rightarrow>
          if ps \<noteq> [] then ps
          else if parameter_set = ''all'' then get_all_pv_parameters
          else (case map_of pv_parameters parameter_set of Some xs \<Rightarrow> xs | None \<Rightarrow> essential)
      | None \<Rightarrow>
          if parameter_set = ''all'' then get_all_pv_parameters
          else (case map_of pv_parameters parameter_set of Some xs \<Rightarrow> xs | None \<Rightarrow> essential))"

text \<open>
  \<open>build_request_url\<close>: both validations, then the query. The URL is kept as the
  record of its query parameters; the warnings of the date validation come with it.
\<close>

definition build_request_url ::
    "client \<Rightarrow> datetime \<Rightarrow> cell \<Rightarrow> cell \<Rightarrow> string \<Rightarrow> string \<Rightarrow> string list \<Rightarrow> string
       \<Rightarrow> exn + query \<times> string list" where
  "build_request_url c now latitude longitude start_date end_date parameters temporal_api =
     (case validate_coordinates latitude longitude of
        Inl e \<Rightarrow> Inl e
      | Inr ok \<Rightarrow>
          (case validate_dates c now start_date end_date of
             Inl e \<Rightarrow> Inl e
           | Inr ws \<Rightarrow>
               Inr (\<lparr>q_temporal = temporal_api, q_start = start_date, q_end = end_date,
                     q_latitude = latitude, q_longitude = longitude, q_community = ''ag'',
                     q_parameters = parameters, q_format = ''json''\<rparr>, ws)))"

subsection \<open>Fetching with retries (\<open>fetch_data\<close>)\<close>

text \<open>
  The decoded JSON body is whatever \<open>response.json()\<close> returns: \<open>None\<close>, a bool, an
  int, a float, a string, a list or a dict (its items, looked up by key). The client
  applies \<open>in\<close>, indexing, iteration, \<open>.lower()\<close>, \<open>.get\<close> and \<open>len\<close> to it without
  testing its type, so each of these raises on the values that do not support it.
\<close>

datatype json =
  JNull | JBool bool | JInt int | JFloat cell | JStr string
  | JArr "json list" | JObj "(string \<times> json) list"

fun type_name :: "json \<Rightarrow> string" where
  "type_name JNull = ''NoneType''"
| "type_name (JBool b) = ''bool''"
| "type_name (JInt n) = ''int''"
| "type_name (JFloat x) = ''float''"
| "type_name (JStr s) = ''str''"
| "type_name (JArr xs) = ''list''"
| "type_name (JObj kvs) = ''dict''"

text \<open>
  What one pass through \<open>requests.get\<close>, \<open>raise_for_status\<close> and \<open>response.json\<close>
  yields: an exception (of class \<open>RequestException\<close> for the failures of the transport
  that the library reports as such: time-outs, connection errors, HTTP error statuses,
  undecodable bodies) or the decoded body. The transport is the sequence of these
  outcomes, one per call.
\<close>

datatype outcome = Raises exn | Returns json

definition lower_char :: "char \<Rightarrow> char" where
  "lower_char c = (if 65 \<le> (of_char c :: nat) \<and> (of_char c :: nat) \<le> 90 then char_of ((of_char c :: nat) + 32) else c)"

definition lower :: "string \<Rightarrow> string" where
  "lower s = map lower_char s"

fun starts_with :: "string \<Rightarrow> string \<Rightarrow> bool" where
  "starts_with [] s = True"
| "starts_with (p # ps) [] = False"
| "starts_with (p # ps) (c # cs) = (p = c \<and> starts_with ps cs)"

text \<open>\<open>sub in s\<close> for strings.\<close>

fun contains :: "string \<Rightarrow> string \<Rightarrow> bool" where
  "contains sub [] = (sub = [])"
| "contains sub (c # cs) = (starts_with sub (c # cs) \<or> contains sub cs)"

text \<open>
  \<open>key in v\<close> for a string \<open>key\<close>: a key of a dict, an element of a list, a substring
  of a string; the other values are no containers.
\<close>

fun py_contains :: "string \<Rightarrow> json \<Rightarrow> exn + bool" where
  "py_contains key (JObj kvs) = Inr (map_of kvs key \<noteq> None)"
| "py_contains key (JArr xs) = Inr (JStr key \<in> set xs)"
| "py_contains key (JStr s) = Inr (contains key s)"
| "py_contains key v =
     Inl (Exn TypeError (''argument of type '' @ squote @ type_name v @ squote @ '' is not iterable''))"

text \<open>\<open>v[key]\<close> for a string \<open>key\<close>.\<close>

fun py_getitem :: "json \<Rightarrow> string \<Rightarrow> exn + json" where
  "py_getitem (JObj kvs) key = (case map_of kvs key of None \<Rightarrow> Inl (Exn KeyError key) | Some x \<Rightarrow> Inr x)"
| "py_getitem (JArr xs) key = Inl (Exn TypeError ''list indices must be integers or slices, not str'')"
| "py_getitem (JStr s) key = Inl (Exn TypeError ''string indices must be integers'')"
| "py_getitem v key = Inl (Exn TypeError (squote @ type_name v @ squote @ '' object is not subscriptable''))"

text \<open>The elements that \<open>for msg in v\<close> runs through.\<close>

fun py_iter :: "json \<Rightarrow> exn + json list" where
  "py_iter (JArr xs) = Inr xs"
| "py_iter (JStr s) = Inr (map (\<lambda>c. JStr [c]) s)"
| "py_iter (JObj kvs) = Inr (map (\<lambda>kv. JStr (fst kv)) kvs)"
| "py_iter v = Inl (Exn TypeError (squote @ type_name v @ squote @ '' object is not iterable''))"

definition no_attribute :: "json \<Rightarrow> string \<Rightarrow> exn" where
  "no_attribute v a =
     Exn AttributeError (squote @ type_name v @ squote @ '' object has no attribute '' @ squote @ a @ squote)"

fun py_lower :: "json \<Rightarrow> exn + string" where
  "py_lower (JStr s) = Inr (lower s)"
| "py_lower v = Inl (no_attribute v ''lower'')"

text \<open>\<open>v.get(key, {})\<close>.\<close>

fun py_get :: "json \<Rightarrow> string \<Rightarrow> exn + json" where
  "py_get (JObj kvs) key = Inr (case map_of kvs key of None \<Rightarrow> JObj [] | Some x \<Rightarrow> x)"
| "py_get v key = Inl (no_attribute v ''get'')"

fun py_len :: "json \<Rightarrow> exn + nat" where
  "py_len (JObj kvs) = Inr (length kvs)"
| "py_len (JArr xs) = Inr (length xs)"
| "py_len (JStr s) = Inr (length s)"
| "py_len v = Inl (Exn TypeError (''object of type '' @ squote @ type_name v @ squote @ '' has no len()''))"

text \<open>\<open>any('error' in msg.lower() for msg in msgs)\<close>, which stops at the first hit.\<close>

fun any_error :: "json list \<Rightarrow> exn + bool" where
  "any_error [] = Inr False"
| "any_error (msg # msgs) =
     (case py_lower msg of
        Inl e \<Rightarrow> Inl e
      | Inr s \<Rightarrow> if contains ''error'' s then Inr True else any_error msgs)"

text \<open>The condition \<open>'messages' in data and any(...)\<close>.\<close>

definition has_error_message :: "json \<Rightarrow> exn + bool" where
  "has_error_message data =
     (case py_contains ''messages'' data of
        Inl e \<Rightarrow> Inl e
      | Inr present \<Rightarrow>
          if \<not> present then Inr False
          else (case py_getitem data ''messages'' of
                  Inl e \<Rightarrow> Inl e
                | Inr msgs \<Rightarrow> (case py_iter msgs of Inl e \<Rightarrow> Inl e | Inr ms \<Rightarrow> any_error ms)))"

text \<open>
  The check of the source, \<open>if 'header' in data and 'source' in data['header']\<close>: the
  warnings it issues (under the default warning filter, which prints them).
\<close>

definition source_warnings :: "json \<Rightarrow> exn + string list" where
  "source_warnings data =
     (case py_contains ''header'' data of
        Inl e \<Rightarrow> Inl e
      | Inr present \<Rightarrow>
          if \<not> present then Inr []
          else (case py_getitem data ''header'' of
                  Inl e \<Rightarrow> Inl e
                | Inr header \<Rightarrow>
                    (case py_contains ''source'' header of
                       Inl e \<Rightarrow> Inl e
                     | Inr named \<Rightarrow>
                         if \<not> named then Inr []
                         else (case py_getitem header ''source'' of
                                 Inl e \<Rightarrow> Inl e
                               | Inr source \<Rightarrow>
                                   (case py_lower source of
                                      Inl e \<Rightarrow> Inl e
                                    | Inr s \<Rightarrow>
                                        Inr (if contains ''geos'' s then []
                                             else [''Expected GEOS-IT source'']))))))"

text \<open>\<open>len(data.get('properties', {}).get('parameter', {}))\<close>.\<close>

definition param_count :: "json \<Rightarrow> exn + nat" where
  "param_count data =
     (case py_get data ''properties'' of
        Inl e \<Rightarrow> Inl e
      | Inr properties \<Rightarrow>
          (case py_get properties ''parameter'' of
             Inl e \<Rightarrow> Inl e
           | Inr parameter \<Rightarrow> py_len parameter))"

text \<open>
  What the client does with a decoded body before returning it: the warnings issued,
  and the exception raised or the number of parameters printed.
\<close>

definition check_body :: "json \<Rightarrow> string list \<times> (exn + nat)" where
  "check_body data =
     (case has_error_message data of
        Inl e \<Rightarrow> ([], Inl e)
      | Inr found \<Rightarrow>
          if found then ([], Inl (Exn OtherException ''API Error''))
          else (case source_warnings data of
                  Inl e \<Rightarrow> ([], Inl e)
                | Inr ws \<Rightarrow> (ws, param_count data)))"

text \<open>The body of the \<open>try\<close>: the request, then the checks of the decoded body.\<close>

definition try_request :: "outcome \<Rightarrow> string list \<times> (exn + json)" where
  "try_request out =
     (case out of
        Raises e \<Rightarrow> ([], Inl e)
      | Returns data \<Rightarrow>
          (case check_body data of
             (ws, Inl e) \<Rightarrow> (ws, Inl e)
           | (ws, Inr n) \<Rightarrow> (ws, Inr data)))"

text \<open>
  \<open>retry_delay * (2 ** attempt)\<close> with \<open>retry_delay\<close> a float, as annotated: the int
  \<open>2 ** attempt\<close> is converted to a float, which raises from \<open>2 ** 1024\<close> on, and the
  product of two floats overflows to an infinity. A product with a power of two
  below the overflow threshold is exact.
\<close>

fun fmul :: "cell \<Rightarrow> cell \<Rightarrow> cell" where
  "fmul (Fin a) (Fin b) = overflow (a * b)"
| "fmul a b = cmul a b"

definition wait_time :: "cell \<Rightarrow> nat \<Rightarrow> exn + cell" where
  "wait_time retry_delay attempt =
     (if 1024 \<le> attempt then Inl (Exn OverflowError ''int too large to convert to float'')
      else Inr (fmul retry_delay (Fin (2 ^ attempt))))"

text \<open>
  \<open>time.sleep(secs)\<close> of a float: CPython refuses NaN, then converts to a signed 64-bit
  count of nanoseconds and refuses what does not fit, then refuses a negative count;
  otherwise it sleeps and returns. The rounding of that conversion is outside the
  model.
\<close>

definition sleep_limit :: real where
  "sleep_limit = 2 ^ 63 / 10 ^ 9"

fun time_sleep :: "cell \<Rightarrow> exn + real" where
  "time_sleep NaN = Inl (Exn ValueError ''Invalid value NaN (not a number)'')"
| "time_sleep PInf = Inl (Exn OverflowError ''timestamp too large to convert to C _PyTime_t'')"
| "time_sleep NInf = Inl (Exn OverflowError ''timestamp too large to convert to C _PyTime_t'')"
| "time_sleep (Fin secs) =
     (if sleep_limit \<le> secs \<or> secs < - sleep_limit
      then Inl (Exn OverflowError ''timestamp too large to convert to C _PyTime_t'')
      else if secs < 0 then Inl (Exn ValueError ''sleep length must be non-negative'')
      else Inr secs)"

text \<open>What a fetch did besides returning: the requests sent, the sleeps, the warnings.\<close>

record fetch_log =
  attempts :: nat
  sleeps :: "real list"
  warnings :: "string list"

text \<open>
  The \<open>for attempt in range(max_retries)\<close> loop, entered at \<open>attempt\<close>. The handler
  catches what the \<open>try\<close> raises in class \<open>RequestException\<close>; what the handler itself
  raises (from the delay, from the sleep, or the final failure) leaves the function.
  A loop that runs out without returning or raising makes the function return \<open>None\<close>.
\<close>

function request_loop ::
    "(nat \<Rightarrow> outcome) \<Rightarrow> int \<Rightarrow> cell \<Rightarrow> int \<Rightarrow> fetch_log \<Rightarrow> fetch_log \<times> (exn + json option)" where
  "request_loop transport max_retries retry_delay attempt fl =
     (if 0 \<le> attempt \<and> attempt < max_retries then
        (case try_request (transport (nat attempt)) of
           (ws, Inr data) \<Rightarrow>
             (fl\<lparr>attempts := attempts fl + 1, warnings := warnings fl @ ws\<rparr>, Inr (Some data))
         | (ws, Inl e) \<Rightarrow>
             if exn_class_of e = RequestException then
               (if attempt < max_retries - 1 then
                  (case wait_time retry_delay (nat attempt) of
                     Inl err \<Rightarrow> (fl\<lparr>attempts := attempts fl + 1, warnings := warnings fl @ ws\<rparr>, Inl err)
                   | Inr secs \<Rightarrow>
                       (case time_sleep secs of
                          Inl err \<Rightarrow>
                            (fl\<lparr>attempts := attempts fl + 1, warnings := warnings fl @ ws\<rparr>, Inl err)
                        | Inr slept \<Rightarrow>
                            request_loop transport max_retries retry_delay (attempt + 1)
                              (fl\<lparr>attempts := attempts fl + 1, sleeps := sleeps fl @ [slept],
                                   warnings := warnings fl @ ws\<rparr>)))
                else (fl\<lparr>attempts := attempts fl + 1, warnings := warnings fl @ ws\<rparr>,
                      Inl (Exn OtherException
                             (''Failed to fetch GEOS-IT data after '' @ string_of_nat (nat max_retries)
                              @ '' attempts: '' @ str_exn e))))
             else (fl\<lparr>attempts := attempts fl + 1, warnings := warnings fl @ ws\<rparr>, Inl e))
      else (fl, Inr None))"
  by pat_completeness auto
termination
  by (relation "measure (\<lambda>(transport, max_retries, retry_delay, attempt, fl). nat (max_retries - attempt))") auto

declare request_loop.simps [simp del]

text \<open>The defaults of \<open>fetch_data\<close>.\<close>

definition default_max_retries :: int where
  "default_max_retries = 3"

definition default_retry_delay :: cell where
  "default_retry_delay = Fin 1"

definition fetch_data ::
    "client \<Rightarrow> datetime \<Rightarrow> (nat \<Rightarrow> outcome) \<Rightarrow> cell \<Rightarrow> cell \<Rightarrow> string \<Rightarrow> string \<Rightarrow> string
       \<Rightarrow> string list option \<Rightarrow> string \<Rightarrow> int \<Rightarrow> cell \<Rightarrow> fetch_log \<times> (exn + json option)" where
  "fetch_data c now transport latitude longitude start_date end_date parameter_set custom_parameters
       temporal_api max_retries retry_delay =
     (case build_request_url c now latitude longitude start_date end_date
             (select_parameters parameter_set custom_parameters) temporal_api of
        Inl e \<Rightarrow> (\<lparr>attempts = 0, sleeps = [], warnings = []\<rparr>, Inl e)
      | Inr url \<Rightarrow>
          request_loop transport max_retries retry_delay 0
            \<lparr>attempts = 0, sleeps = [], warnings = snd url\<rparr>)"

subsection \<open>Prediction summary (\<open>get_prediction_summary\<close>)\<close>

fun csqrt :: "cell \<Rightarrow> cell" where
  "csqrt (Fin a) = (if a < 0 then NaN else Fin (sqrt a))"
| "csqrt PInf = PInf"
| "csqrt c = NaN"

text \<open>numpy's \<open>min\<close> and \<open>max\<close> hand on a NaN.\<close>

fun cmin :: "cell \<Rightarrow> cell \<Rightarrow> cell" where
  "cmin NaN _ = NaN"
| "cmin _ NaN = NaN"
| "cmin NInf _ = NInf"
| "cmin _ NInf = NInf"
| "cmin PInf b = b"
| "cmin a PInf = a"
| "cmin (Fin a) (Fin b) = Fin (min a b)"

fun cmax :: "cell \<Rightarrow> cell \<Rightarrow> cell" where
  "cmax NaN _ = NaN"
| "cmax _ NaN = NaN"
| "cmax PInf _ = PInf"
| "cmax _ PInf = PInf"
| "cmax NInf b = b"
| "cmax a NInf = a"
| "cmax (Fin a) (Fin b) = Fin (max a b)"

definition np_mean :: "cell list \<Rightarrow> cell" where
  "np_mean xs = (if xs = [] then NaN else cdivn (csum xs) (length xs))"

definition np_std :: "cell list \<Rightarrow> cell" where
  "np_std xs = csqrt (np_mean (map (\<lambda>x. cmul (cadd x (cneg (np_mean xs))) (cadd x (cneg (np_mean xs)))) xs))"

record prediction_summary =
  total_days :: nat
  total_production_kwh :: cell
  total_savings_mad :: cell
  avg_daily_production_kwh :: cell
  avg_daily_savings_mad :: cell
  min_daily_production_kwh :: cell
  max_daily_production_kwh :: cell
  std_daily_production_kwh :: cell
  conversion_rate_mad_per_kwh :: cell

text \<open>\<open>min\<close> and \<open>max\<close> of an empty array raise.\<close>

definition get_prediction_summary :: "cell list \<Rightarrow> cell \<Rightarrow> exn + prediction_summary" where
  "get_prediction_summary predictions_kwh mad_per_kwh =
     (case predictions_kwh of
        [] \<Rightarrow> Inl (Exn ValueError ''zero-size array to reduction operation minimum which has no identity'')
      | p # ps \<Rightarrow>
          Inr \<lparr>total_days = length predictions_kwh,
               total_production_kwh = csum predictions_kwh,
               total_savings_mad = csum (calculate_financial_savings predictions_kwh mad_per_kwh),
               avg_daily_production_kwh = np_mean predictions_kwh,
               avg_daily_savings_mad = np_mean (calculate_financial_savings predictions_kwh mad_per_kwh),
               min_daily_production_kwh = foldl cmin p ps,
               max_daily_production_kwh = foldl cmax p ps,
               std_daily_production_kwh = np_std predictions_kwh,
               conversion_rate_mad_per_kwh = mad_per_kwh\<rparr>)"

section \<open>The prediction endpoint (\<open>app.generate_predictions\<close>)\<close>

text \<open>
  A field of the JSON body that \<open>float()\<close> is applied to: a value it converts, a string
  it rejects with \<open>ValueError\<close>, or a value of a type it rejects with \<open>TypeError\<close>. A
  field of the record is \<open>None\<close> when the key is absent. The dates are strings.
\<close>

datatype jnum = JNumber cell | JNotNumeric | JNoFloat

fun py_float :: "jnum \<Rightarrow> exn + cell" where
  "py_float (JNumber c) = Inr c"
| "py_float JNotNumeric = Inl (Exn ValueError ''could not convert string to float'')"
| "py_float JNoFloat = Inl (Exn TypeError ''float() argument must be a string or a real number'')"

record request_json =
  j_latitude :: "jnum option"
  j_longitude :: "jnum option"
  j_capacity :: "jnum option"
  j_start_date :: "string option"
  j_end_date :: "string option"

record parsed_request =
  p_latitude :: cell
  p_longitude :: cell
  p_capacity :: cell
  p_start_date :: string
  p_end_date :: string

definition required :: "string \<Rightarrow> 'a option \<Rightarrow> exn + 'a" where
  "required key v = (case v of None \<Rightarrow> Inl (Exn KeyError key) | Some x \<Rightarrow> Inr x)"

text \<open>The five reads at the head of the \<open>try\<close> block, in their order.\<close>

definition read_request :: "request_json \<Rightarrow> exn + parsed_request" where
  "read_request data =
     (case required ''latitude'' (j_latitude data) of Inl e \<Rightarrow> Inl e | Inr la \<Rightarrow>
      case py_float la of Inl e \<Rightarrow> Inl e | Inr latitude \<Rightarrow>
      case required ''longitude'' (j_longitude data) of Inl e \<Rightarrow> Inl e | Inr lo \<Rightarrow>
      case py_float lo of Inl e \<Rightarrow> Inl e | Inr longitude \<Rightarrow>
      case py_float (case j_capacity data of None \<Rightarrow> JNumber (Fin 1) | Some c \<Rightarrow> c) of
        Inl e \<Rightarrow> Inl e | Inr capacity \<Rightarrow>
      case required ''start_date'' (j_start_date data) of Inl e \<Rightarrow> Inl e | Inr start_date \<Rightarrow>
      case required ''end_date'' (j_end_date data) of Inl e \<Rightarrow> Inl e | Inr end_date \<Rightarrow>
      Inr \<lparr>p_latitude = latitude, p_longitude = longitude, p_capacity = capacity,
           p_start_date = start_date, p_end_date = end_date\<rparr>)"

text \<open>
  Calling a Python method with keyword arguments: a keyword that names no parameter is a
  \<open>TypeError\<close> at the call, before the body runs. \<open>PVModelHandler.predict\<close> is declared
  \<open>def predict(self, df)\<close>.
\<close>

definition predict_parameters :: "string list" where
  "predict_parameters = [''df'']"

definition call_predict :: "handler \<Rightarrow> dataframe \<Rightarrow> (string \<times> cell) list \<Rightarrow> exn + cell list" where
  "call_predict h df kwargs =
     (case filter (\<lambda>k. k \<notin> set predict_parameters) (map fst kwargs) of
        [] \<Rightarrow> predict h df
      | k # ks \<Rightarrow>
          Inl (Exn TypeError (''PVModelHandler.predict() got an unexpected keyword argument ''
                               @ squote @ k @ squote)))"

text \<open>Python's \<open>round(x, ndigits)\<close> on exact values: to the nearest, ties to even.\<close>

definition round_half_even :: "real \<Rightarrow> int" where
  "round_half_even x =
     (if x - of_int \<lfloor>x\<rfloor> < 1 / 2 then \<lfloor>x\<rfloor>
      else if 1 / 2 < x - of_int \<lfloor>x\<rfloor> then \<lfloor>x\<rfloor> + 1
      else if even \<lfloor>x\<rfloor> then \<lfloor>x\<rfloor> else \<lfloor>x\<rfloor> + 1)"

fun py_round :: "cell \<Rightarrow> nat \<Rightarrow> cell" where
  "py_round (Fin x) ndigits = Fin (of_int (round_half_even (x * 10 ^ ndigits)) / 10 ^ ndigits)"
| "py_round c ndigits = c"

record prediction_row =
  row_date :: date
  pv_production_kwh :: cell
  financial_savings_mad :: cell
  weather_data :: "(string \<times> cell option) list"

text \<open>One entry of \<open>results\<close>; a row label that is not a date has no \<open>strftime\<close>.\<close>

definition result_row :: "dataframe \<Rightarrow> nat \<Rightarrow> cell \<Rightarrow> cell \<Rightarrow> exn + prediction_row" where
  "result_row df i pred savings =
     (case index df ! i of
        Pos n \<Rightarrow> Inl (Exn AttributeError ''int object has no attribute strftime'')
      | Day d \<Rightarrow>
          Inr \<lparr>row_date = d, pv_production_kwh = py_round pred 1,
               financial_savings_mad = py_round savings 1,
               weather_data = map (\<lambda>nc. (fst nc, if isnan (snd nc ! i) then None
                                                   else Some (py_round (snd nc ! i) 3))) (cols df)\<rparr>)"

fun result_rows :: "dataframe \<Rightarrow> nat list \<Rightarrow> cell list \<Rightarrow> cell list \<Rightarrow> exn + prediction_row list" where
  "result_rows df (i # is) (p # ps) (s # ss) =
     (case result_row df i p s of
        Inl e \<Rightarrow> Inl e
      | Inr r \<Rightarrow> (case result_rows df is ps ss of Inl e \<Rightarrow> Inl e | Inr rs \<Rightarrow> Inr (r # rs)))"
| "result_rows df is ps ss = Inr []"

text \<open>
  Of \<open>get_data_summary_for_dashboard\<close> the endpoint keeps the date range and the share
  of rows without a missing value, in percent.
\<close>

fun label_ordinal :: "row_label \<Rightarrow> int" where
  "label_ordinal (Day d) = toordinal d"
| "label_ordinal (Pos n) = int n"

definition date_range :: "dataframe \<Rightarrow> (row_label \<times> row_label) option" where
  "date_range df =
     (case index df of
        [] \<Rightarrow> None
      | l # ls \<Rightarrow>
          Some (foldl (\<lambda>a b. if label_ordinal b < label_ordinal a then b else a) l ls,
                foldl (\<lambda>a b. if label_ordinal a < label_ordinal b then b else a) l ls))"

definition data_completeness :: "dataframe \<Rightarrow> real" where
  "data_completeness df =
     (1 - real (length (filter (\<lambda>i. list_ex (\<lambda>nc. isnan (snd nc ! i)) (cols df)) [0..<df_len df]))
            / real (df_len df)) * 100"

record response_metadata =
  location :: "cell \<times> cell"
  capacity :: cell
  conversion_rate :: cell

datatype body =
  ErrorBody string
| PredictionsBody "prediction_row list" prediction_summary "(row_label \<times> row_label) option" real response_metadata

record response =
  status :: nat
  body :: body

definition error_response :: "nat \<Rightarrow> string \<Rightarrow> response" where
  "error_response code msg = \<lparr>status = code, body = ErrorBody msg\<rparr>"

text \<open>The calls that leave the process: the data fetch and the model call.\<close>

datatype event = DataFetch cell cell string string | ModelCall

text \<open>
  The \<open>try\<close> block after the reads. It returns the events and either the response it
  returns or the exception that escapes it. \<open>get_data\<close> is
  \<open>get_pv_data_for_dashboard\<close>: what it answers depends on the network, so it is a
  parameter.
\<close>

definition respond ::
    "handler \<Rightarrow> (cell \<Rightarrow> cell \<Rightarrow> string \<Rightarrow> string \<Rightarrow> exn + dataframe) \<Rightarrow> parsed_request
       \<Rightarrow> event list \<times> (exn + response)" where
  "respond h get_data r =
     (if \<not> between (- 90) (p_latitude r) 90 \<or> \<not> between (- 180) (p_longitude r) 180
      then ([], Inr (error_response 400 ''Invalid coordinates''))
      else case strptime (p_start_date r) fmt_dashed of Inl e \<Rightarrow> ([], Inl e) | Inr start_dt \<Rightarrow>
           case strptime (p_end_date r) fmt_dashed of Inl e \<Rightarrow> ([], Inl e) | Inr end_dt \<Rightarrow>
           if instant start_dt \<ge> instant end_dt
           then ([], Inr (error_response 400 ''Start date must be before end date''))
           else if delta_days end_dt start_dt > 365
           then ([], Inr (error_response 400 ''Date range cannot exceed 1 year''))
           else case get_data (p_latitude r) (p_longitude r) (p_start_date r) (p_end_date r) of
                  Inl e \<Rightarrow> ([DataFetch (p_latitude r) (p_longitude r) (p_start_date r) (p_end_date r)], Inl e)
                | Inr df \<Rightarrow>
                    if df_empty df
                    then ([DataFetch (p_latitude r) (p_longitude r) (p_start_date r) (p_end_date r)],
                          Inr (error_response 400
                                ''No NASA POWER data available for this location and date range''))
                    else
                      ([DataFetch (p_latitude r) (p_longitude r) (p_start_date r) (p_end_date r), ModelCall],
                       case call_predict h df [(''capacity'', p_capacity r)] of Inl e \<Rightarrow> Inl e
                       | Inr predictions_kwh \<Rightarrow>
                       case result_rows df [0..<df_len df] predictions_kwh
                              (calculate_financial_savings predictions_kwh (Fin 1.2)) of
                         Inl e \<Rightarrow> Inl e
                       | Inr results \<Rightarrow>
                       case get_prediction_summary predictions_kwh (Fin 1.2) of Inl e \<Rightarrow> Inl e
                       | Inr summary \<Rightarrow>
                           Inr \<lparr>status = 200,
                                body = PredictionsBody results summary (date_range df) (data_completeness df)
                                         \<lparr>location = (p_latitude r, p_longitude r),
                                          capacity = p_capacity r, conversion_rate = Fin 1.2\<rparr>\<rparr>))"

text \<open>
  \<open>generate_predictions\<close>: the guard on the handler, the \<open>try\<close> block, and the two
  \<open>except\<close> clauses (\<open>ValueError\<close> answers 400, any other exception 500). A request
  without a JSON body fails at the first read.
\<close>

definition generate_predictions ::
    "handler option \<Rightarrow> (cell \<Rightarrow> cell \<Rightarrow> string \<Rightarrow> string \<Rightarrow> exn + dataframe) \<Rightarrow> request_json option
       \<Rightarrow> event list \<times> response" where
  "generate_predictions model_handler get_data request =
     (case model_handler of
        None \<Rightarrow> ([], error_response 500 ''Model not loaded'')
      | Some h \<Rightarrow>
          if \<not> is_loaded h then ([], error_response 500 ''Model not loaded'')
          else
            (case (case request of
                     None \<Rightarrow> ([], Inl (Exn TypeError ''NoneType object is not subscriptable''))
                   | Some data \<Rightarrow>
                       (case read_request data of
                          Inl e \<Rightarrow> ([], Inl e)
                        | Inr r \<Rightarrow> respond h get_data r)) of
               (events, Inr resp) \<Rightarrow> (events, resp)
             | (events, Inl e) \<Rightarrow>
                 (events,
                  if exn_class_of e = ValueError
                  then error_response 400 (''Invalid input format: '' @ str_exn e)
                  else error_response 500 (''Prediction generation failed: '' @ str_exn e))))"

section \<open>Fixtures\<close>

text \<open>A loaded handler around a stub model that answers every input with \<open>out\<close>.\<close>

definition stub_handler :: "cell list \<Rightarrow> handler" where
  "stub_handler out =
     \<lparr>model_path = ''final_pv_model.pkl'',
      model = Some (Direct \<lparr>class_name = ''Stub'', predict_fn = (\<lambda>X. Inr out),
                            n_features_in = None, coef_shape = None\<rparr>),
      model_info = Some \<lparr>model_type = ''Stub'', feature_count = None, info_ensemble = None\<rparr>,
      is_loaded = True, ensemble_info = None\<rparr>"

text \<open>A regressor that predicts the constant \<open>c\<close> for every row of its input.\<close>

fun n_rows :: "model_input \<Rightarrow> nat" where
  "n_rows (Frame df) = df_len df"
| "n_rows (Matrix rows) = length rows"

definition const_model :: "real \<Rightarrow> regressor" where
  "const_model c =
     \<lparr>class_name = ''Constant'', predict_fn = (\<lambda>X. Inr (replicate (n_rows X) (Fin c))),
      n_features_in = None, coef_shape = None\<rparr>"




text \<open>A clock reading, a well-formed response, and two transports.\<close>

definition fixture_now :: datetime where
  "fixture_now = \<lparr>on_date = \<lparr>year = 2024, month = 1, day = 10\<rparr>, micros = 0\<rparr>"




text \<open>
  The end-to-end scenario: three days of June 2023 near Casablanca, a loaded handler
  around a stub model that predicts 5.0 for every row, capacity 2.0.
\<close>

definition scenario_frame :: dataframe where
  "scenario_frame =
     \<lparr>index = [Day \<lparr>year = 2023, month = 6, day = 1\<rparr>, Day \<lparr>year = 2023, month = 6, day = 2\<rparr>,
               Day \<lparr>year = 2023, month = 6, day = 3\<rparr>],
      cols = [(''ALLSKY_SFC_SW_DWN'', [Fin 7.5, Fin 7.9, Fin 8.1]), (''T2M'', [Fin 22, Fin 23, Fin 24])]\<rparr>"

definition scenario_handler :: handler where
  "scenario_handler =
     \<lparr>model_path = ''final_pv_model.pkl'', model = Some (Direct (const_model 5)),
      model_info = Some \<lparr>model_type = ''Constant'', feature_count = None, info_ensemble = None\<rparr>,
      is_loaded = True, ensemble_info = None\<rparr>"

definition scenario_request :: request_json where
  "scenario_request =
     \<lparr>j_latitude = Some (JNumber (Fin 33.5731)), j_longitude = Some (JNumber (Fin (- 7.5898))),
      j_capacity = Some (JNumber (Fin 2)), j_start_date = Some ''2023-06-01'',
      j_end_date = Some ''2023-06-03''\<rparr>"



chapter \<open>Verification\<close>

section \<open>Cells\<close>

lemma cadd_Fin_iff: "cadd a b = Fin r \<longleftrightarrow> (\<exists>x y. a = Fin x \<and> b = Fin y \<and> r = x + y)"
  by (cases a; cases b) auto

lemma csum_no_special:
  "list_all isfinite xs \<Longrightarrow> csum xs = Fin (sum_list (finite_values xs))"
proof (induction xs)
  case Nil
  show ?case by simp
next
  case (Cons x xs)
  then show ?case by (cases x) simp_all
qed

lemma csum_with_inf:
  "list_ex isinf xs \<Longrightarrow> \<not> isfinite (csum xs)"
proof (induction xs)
  case Nil
  then show ?case by simp
next
  case (Cons x xs)
  show ?case
  proof (cases "isfinite (cadd x (csum xs))")
    case False
    then show ?thesis by simp
  next
    case True
    then obtain r where "cadd x (csum xs) = Fin r" by (cases "cadd x (csum xs)") simp_all
    then obtain a b where ab: "x = Fin a" "csum xs = Fin b" by (auto simp: cadd_Fin_iff)
    with Cons.prems have "list_ex isinf xs" by simp
    with Cons.IH ab show ?thesis by simp
  qed
qed

section \<open>Preprocessing\<close>




































lemma preprocess_index: "index (preprocess_data df) = index df"
  by (simp add: preprocess_data_def Let_def fillna_mean_def replace_inf_def)






section \<open>Clamping\<close>

lemma maximum0_cases:
  "(isnan x \<longrightarrow> maximum0 x = NaN) \<and> (\<not> isnan x \<and> \<not> nonneg x \<longrightarrow> maximum0 x = Fin 0)
     \<and> (nonneg x \<longrightarrow> maximum0 x = x)"
  by (cases x) auto

lemma maximum0_nonneg: "isnan (maximum0 x) \<or> nonneg (maximum0 x)"
  by (cases x) auto

lemma predict_InrD:
  assumes "predict h df = Inr ps"
  shows "is_loaded h \<and> \<not> df_empty df \<and> length ps = df_len df
     \<and> (\<exists>m raw. model h = Some m \<and> model_predict m (preprocess_data df) = Inr (Array raw)
            \<and> ps = map maximum0 raw)"
proof -
  from assms have l: "is_loaded h" by (auto simp: predict_def split: if_splits)
  from assms l obtain m where m: "model h = Some m"
    by (cases "model h") (auto simp: predict_def)
  from assms l m have ne: "\<not> df_empty df"
    by (auto simp: predict_def validate_input_data_def split: if_splits)
  from assms l m ne obtain raw0 where raw0: "model_predict m (preprocess_data df) = Inr raw0"
    by (cases "model_predict m (preprocess_data df)") (auto simp: predict_def validate_input_data_def)
  from assms l m ne raw0 obtain raw where raw: "raw0 = Array raw"
    by (cases raw0) (auto simp: predict_def validate_input_data_def)
  from assms l m ne raw0 raw have "ps = map maximum0 raw \<and> length ps = df_len df"
    by (auto simp: predict_def validate_input_data_def
        split: if_splits option.splits model.splits)
  with l m ne raw0 raw show ?thesis by auto
qed

text \<open>
  Claim C7, amended. Whenever \<open>predict\<close> returns, its output is the model's raw output
  passed through \<open>np.maximum(., 0)\<close>: every value below zero (minus infinity included)
  has become 0, so every output value is non-negative or NaN; a NaN of the model is
  handed on unchanged.
\<close>

theorem predict_nonneg_or_nan:
  assumes "predict h df = Inr ps"
  shows "list_all (\<lambda>p. isnan p \<or> nonneg p) ps
    \<and> (\<exists>m raw. model h = Some m \<and> model_predict m (preprocess_data df) = Inr (Array raw)
          \<and> ps = map maximum0 raw
          \<and> list_all (\<lambda>x. (isnan x \<longrightarrow> maximum0 x = NaN)
                  \<and> (\<not> isnan x \<and> \<not> nonneg x \<longrightarrow> maximum0 x = Fin 0)
                  \<and> (nonneg x \<longrightarrow> maximum0 x = x)) raw)"
proof -
  from predict_InrD [OF assms] obtain m raw where
    mr: "model h = Some m" "model_predict m (preprocess_data df) = Inr (Array raw)"
        "ps = map maximum0 raw" by blast
  have "list_all (\<lambda>p. isnan p \<or> nonneg p) ps"
    using mr(3) maximum0_nonneg by (simp add: list_all_iff)
  moreover have "list_all (\<lambda>x. (isnan x \<longrightarrow> maximum0 x = NaN)
                  \<and> (\<not> isnan x \<and> \<not> nonneg x \<longrightarrow> maximum0 x = Fin 0)
                  \<and> (nonneg x \<longrightarrow> maximum0 x = x)) raw"
    using maximum0_cases by (simp add: list_all_iff)
  ultimately show ?thesis using mr by blast
qed

lemma predict_stub:
  "predict (stub_handler out) \<lparr>index = [Pos 0], cols = [(''T2M'', [Fin 25])]\<rparr>
     = (if length out = 1 then Inr (map maximum0 out) else Inl (Exn ValueError ''Prediction length mismatch''))"
  by (simp add: predict_def stub_handler_def validate_input_data_def df_empty_def
      model_predict_def df_len_def)

theorem predict_nonneg_or_nan_witness:
  "predict (stub_handler [Fin (- 3)]) \<lparr>index = [Pos 0], cols = [(''T2M'', [Fin 25])]\<rparr> = Inr [Fin 0]
   \<and> list_all (\<lambda>p. isnan p \<or> nonneg p) [Fin 0]"
proof -
  have run: "predict (stub_handler [Fin (- 3)]) \<lparr>index = [Pos 0], cols = [(''T2M'', [Fin 25])]\<rparr> = Inr [Fin 0]"
    by (simp add: predict_stub)
  from predict_nonneg_or_nan [OF run] run show ?thesis by blast
qed

theorem predict_nan_counterexample:
  "predict (stub_handler [NaN]) \<lparr>index = [Pos 0], cols = [(''T2M'', [Fin 25])]\<rparr> = Inr [NaN]
   \<and> \<not> list_all nonneg [NaN]"
  by (simp add: predict_stub)

section \<open>Health check\<close>

lemma predict_stub_probe:
  "predict (stub_handler out) (test_data (stub_handler out))
     = (if length out = 1 then Inr (map maximum0 out) else Inl (Exn ValueError ''Prediction length mismatch''))"
  by (simp add: predict_def stub_handler_def validate_input_data_def df_empty_def
      model_predict_def df_len_def test_data_def preprocess_index)

lemma unhealthy_simps:
  "healthy (unhealthy msg) = False" "error (unhealthy msg) = Some msg"
  "test_prediction (unhealthy msg) = None"
  by (simp_all add: unhealthy_def)

lemma health_iff:
  "healthy (validate_model_health h)
     \<longleftrightarrow> (\<exists>p. predict h (test_data h) = Inr [p] \<and> \<not> isnan p)"
proof (cases "is_loaded h")
  case False
  then show ?thesis by (simp add: validate_model_health_def unhealthy_simps predict_def)
next
  case True
  show ?thesis
  proof (cases "model h")
    case None
    with True show ?thesis by (simp add: validate_model_health_def unhealthy_simps predict_def)
  next
    case (Some m)
    with True show ?thesis
      by (auto simp: validate_model_health_def unhealthy_simps split: sum.splits list.splits)
  qed
qed

lemma health_result:
  "predict h (test_data h) = Inr [p] \<Longrightarrow> \<not> isnan p
     \<Longrightarrow> test_prediction (validate_model_health h) = Some p"
  by (frule predict_InrD)
     (auto simp: validate_model_health_def unhealthy_simps split: sum.splits list.splits)

lemma health_error:
  "\<not> healthy (validate_model_health h)
     \<Longrightarrow> \<exists>msg. error (validate_model_health h) = Some msg \<and> msg \<noteq> []"
  by (auto simp: validate_model_health_def unhealthy_simps
      split: sum.splits list.splits option.splits if_splits)

text \<open>
  Claim C3, amended. The report is healthy exactly when the probe prediction returns one
  value that is not NaN, and then carries that value; the check tests for NaN only, so
  an infinite value is reported healthy. An exception of the probe, a NaN result and
  every other outcome give an unhealthy report whose error message is not empty. The
  operation returns a report in every case: it has no raising branch.
\<close>

theorem health_check_report:
  "(healthy (validate_model_health h)
      \<longleftrightarrow> (\<exists>p. predict h (test_data h) = Inr [p] \<and> \<not> isnan p))
   \<and> (\<forall>p. predict h (test_data h) = Inr [p] \<and> \<not> isnan p
          \<longrightarrow> test_prediction (validate_model_health h) = Some p)
   \<and> (\<forall>e. predict h (test_data h) = Inl e \<longrightarrow> \<not> healthy (validate_model_health h))
   \<and> (predict h (test_data h) = Inr [NaN] \<longrightarrow> \<not> healthy (validate_model_health h))
   \<and> (\<not> healthy (validate_model_health h)
          \<longrightarrow> (\<exists>msg. error (validate_model_health h) = Some msg \<and> msg \<noteq> []))"
  using health_result [of h] health_error [of h] by (auto simp: health_iff)

theorem health_check_report_witness:
  "healthy (validate_model_health (stub_handler [Fin 5]))
   \<and> test_prediction (validate_model_health (stub_handler [Fin 5])) = Some (Fin 5)
   \<and> \<not> healthy (validate_model_health (stub_handler [NaN]))
   \<and> \<not> healthy (validate_model_health (stub_handler [Fin 1, Fin 2]))"
  using health_check_report [of "stub_handler [Fin 5]"] health_check_report [of "stub_handler [NaN]"]
    health_check_report [of "stub_handler [Fin 1, Fin 2]"]
  by (simp add: predict_stub_probe)

theorem health_check_infinite_counterexample:
  "predict (stub_handler [PInf]) (test_data (stub_handler [PInf])) = Inr [PInf]
   \<and> \<not> isfinite PInf
   \<and> healthy (validate_model_health (stub_handler [PInf]))"
  by (simp add: predict_stub_probe health_iff)

section \<open>The weighted ensemble\<close>



lemma cadd_zero_left: "cadd (Fin 0) a = a"
  by (cases a) simp_all


lemma predict_all_success:
  assumes "list_all2 (\<lambda>nm np. fst np = fst nm \<and> predict_fn (snd nm) X = Inr (snd np)) ms preds"
  shows "predict_all ms X = Inr preds"
  using assms by (induction ms preds rule: list_all2_induct) auto



lemma map_of_preds:
  "distinct (map fst preds) \<Longrightarrow> np \<in> set preds \<Longrightarrow> map_of preds (fst np) = Some (snd np)"
  by (cases np) simp






lemma weighted_sum_needs_weights:
  "weighted_sum w p names acc = Inr r \<Longrightarrow> list_all (\<lambda>name. w name \<noteq> None) names"
  by (induction names arbitrary: acc) (auto split: option.splits sum.splits)

lemma weighted_sum_key_error:
  assumes "\<forall>name \<in> set names. \<exists>pr. p name = Some pr \<and> length pr = n"
    and "case acc of Scalar c \<Rightarrow> True | Array a \<Rightarrow> length a = n"
    and "weighted_sum w p names acc = Inl e"
  shows "\<exists>name \<in> set names. w name = None \<and> e = Exn KeyError name"
  using assms
proof (induction names arbitrary: acc)
  case Nil
  then show ?case by simp
next
  case (Cons name names)
  from Cons.prems(1) obtain pr where pr: "p name = Some pr" "length pr = n" by auto
  show ?case
  proof (cases "w name")
    case None
    with Cons.prems(3) show ?thesis by simp
  next
    case (Some wt)
    from Cons.prems(2) pr obtain a' where
      add: "np_add acc (Array (map (cmul wt) pr)) = Inr (Array a')" and len: "length a' = n"
      by (cases acc) auto
    from Cons.prems(3) Some pr add have rest: "weighted_sum w p names (Array a') = Inl e" by simp
    have "\<exists>name \<in> set names. w name = None \<and> e = Exn KeyError name"
      using Cons.prems(1) len rest by (intro Cons.IH) auto
    then show ?thesis by auto
  qed
qed

lemma weighted_sum_cong:
  "\<forall>name \<in> set names. w' name = w name
     \<Longrightarrow> weighted_sum w' p names acc = weighted_sum w p names acc"
  by (induction names arbitrary: acc) (auto split: option.splits sum.splits)



text \<open>
  Claim C9. The ensemble's prediction succeeds only if every model name has a weight;
  when the models themselves all return arrays of one length and a model name has no
  weight, the call fails with the \<open>KeyError\<close> of such a name; and two weight
  dictionaries that agree on the model names give the same result, so weights under
  other names have no effect.
\<close>

theorem ensemble_weight_lookup:
  "(\<forall>r. ensemble_predict (EnsembleModel_init ms ws) X = Inr r
        \<longrightarrow> list_all (\<lambda>nm. map_of ws (fst nm) \<noteq> None) ms)
   \<and> (\<forall>preds n.
        list_all2 (\<lambda>nm np. fst np = fst nm \<and> predict_fn (snd nm) (to_array X) = Inr (snd np)) ms preds
        \<and> list_all (\<lambda>np. length (snd np) = n) preds \<and> distinct (map fst ms)
        \<and> list_ex (\<lambda>nm. map_of ws (fst nm) = None) ms
        \<longrightarrow> (\<exists>name. ensemble_predict (EnsembleModel_init ms ws) X = Inl (Exn KeyError name)
               \<and> name \<in> set (map fst ms) \<and> map_of ws name = None))
   \<and> (\<forall>ws'. (\<forall>nm \<in> set ms. map_of ws' (fst nm) = map_of ws (fst nm))
        \<longrightarrow> ensemble_predict (EnsembleModel_init ms ws') X
            = ensemble_predict (EnsembleModel_init ms ws) X)"
proof (intro conjI allI impI)
  fix r assume "ensemble_predict (EnsembleModel_init ms ws) X = Inr r"
  then have "list_all (\<lambda>name. map_of ws name \<noteq> None) (map fst ms)"
    by (auto simp: ensemble_predict_def EnsembleModel_init_def split: sum.splits
        dest: weighted_sum_needs_weights)
  then show "list_all (\<lambda>nm. map_of ws (fst nm) \<noteq> None) ms"
    by (simp add: list_all_iff)
next
  fix preds n
  assume a: "list_all2 (\<lambda>nm np. fst np = fst nm \<and> predict_fn (snd nm) (to_array X) = Inr (snd np)) ms preds
        \<and> list_all (\<lambda>np. length (snd np) = n) preds \<and> distinct (map fst ms)
        \<and> list_ex (\<lambda>nm. map_of ws (fst nm) = None) ms"
  then have preds: "list_all2 (\<lambda>nm np. fst np = fst nm \<and> predict_fn (snd nm) (to_array X) = Inr (snd np)) ms preds"
    by simp
  have names: "map fst preds = map fst ms"
    using preds by (induction ms preds rule: list_all2_induct) auto
  with a have dp: "distinct (map fst preds)" by simp
  have present: "\<forall>name \<in> set (map fst ms). \<exists>pr. map_of preds name = Some pr \<and> length pr = n"
  proof
    fix name assume "name \<in> set (map fst ms)"
    with names obtain np where np: "np \<in> set preds" "fst np = name"
      by (metis (no_types, lifting) image_iff list.set_map)
    with a have "length (snd np) = n" by (auto simp: list_all_iff)
    moreover from np dp have "map_of preds name = Some (snd np)" using map_of_preds by blast
    ultimately show "\<exists>pr. map_of preds name = Some pr \<and> length pr = n" by simp
  qed
  have run: "ensemble_predict (EnsembleModel_init ms ws) X
      = weighted_sum (map_of ws) (map_of preds) (map fst ms) (Scalar (Fin 0))"
    using predict_all_success [OF preds]
    by (simp add: ensemble_predict_def EnsembleModel_init_def)
  have "\<not> list_all (\<lambda>name. map_of ws name \<noteq> None) (map fst ms)"
    using a by (auto simp: list_all_iff list_ex_iff)
  then obtain e where e: "weighted_sum (map_of ws) (map_of preds) (map fst ms) (Scalar (Fin 0)) = Inl e"
    using weighted_sum_needs_weights
    by (cases "weighted_sum (map_of ws) (map_of preds) (map fst ms) (Scalar (Fin 0))") blast+
  have "\<exists>name \<in> set (map fst ms). map_of ws name = None \<and> e = Exn KeyError name"
    using present _ e by (rule weighted_sum_key_error) simp
  with run e show "\<exists>name. ensemble_predict (EnsembleModel_init ms ws) X = Inl (Exn KeyError name)
               \<and> name \<in> set (map fst ms) \<and> map_of ws name = None"
    by auto
next
  fix ws' assume "\<forall>nm \<in> set ms. map_of ws' (fst nm) = map_of ws (fst nm)"
  then have "\<forall>name \<in> set (map fst ms). map_of ws' name = map_of ws name" by simp
  then show "ensemble_predict (EnsembleModel_init ms ws') X = ensemble_predict (EnsembleModel_init ms ws) X"
    by (simp add: ensemble_predict_def EnsembleModel_init_def weighted_sum_cong split: sum.splits)
qed

theorem ensemble_weight_lookup_witness:
  "ensemble_predict
      (EnsembleModel_init [(''A'', const_model 10), (''B'', const_model 20)] [(''A'', Fin 0.5)])
      (Matrix [[Fin 1]])
    = Inl (Exn KeyError ''B'')
   \<and> ensemble_predict
      (EnsembleModel_init [(''A'', const_model 10)] [(''A'', Fin 0.5), (''C'', Fin 7)])
      (Matrix [[Fin 1]])
    = ensemble_predict
      (EnsembleModel_init [(''A'', const_model 10)] [(''A'', Fin 0.5)])
      (Matrix [[Fin 1]])"
  using
    ensemble_weight_lookup [of "[(''A'', const_model 10), (''B'', const_model 20)]" "[(''A'', Fin 0.5)]"
      "Matrix [[Fin 1]]"]
    ensemble_weight_lookup [of "[(''A'', const_model 10)]" "[(''A'', Fin 0.5)]" "Matrix [[Fin 1]]"]
  by (simp add: ensemble_predict_def EnsembleModel_init_def const_model_def to_array_def cadd_zero_left)

section \<open>Loading and reloading\<close>

lemma load_failed_state:
  "load_failed h e = (h', r) \<Longrightarrow> r = Some e \<and> model h' = None \<and> \<not> is_loaded h' \<and> model_path h' = model_path h"
  by (auto simp: load_failed_def)




text \<open>An ensemble that a load has installed has at least one base model.\<close>

lemma finish_load_described:
  "finish_load h0 = (h', None) \<Longrightarrow> model h0 \<noteq> None
     \<Longrightarrow> \<exists>m d. model h' = Some m \<and> describe_model m = Inr d"
  by (auto simp: finish_load_def extract_model_info_def load_failed_def
      split: sum.splits option.splits)

lemma load_model_described:
  assumes "load_model fs h = (h', None)"
  shows "\<exists>m d. model h' = Some m \<and> describe_model m = Inr d"
  using assms
  by (auto simp: load_model_def load_failed_def
      split: option.splits file_content.splits loaded_object.splits
      dest!: finish_load_described)

lemma loaded_ensemble_nonempty:
  assumes "load_model fs h = (h', None)" and "model h' = Some (Ensemble em)"
  shows "models em \<noteq> []"
  using load_model_described [OF assms(1)] assms(2)
  by (auto simp: describe_model_def ensemble_n_features_def split: list.splits)







section \<open>Retries\<close>











lemma fetch_data_loop:
  assumes "build_request_url c now latitude longitude start_date end_date
      (select_parameters parameter_set custom_parameters) temporal_api = Inr url"
  shows "fetch_data c now transport latitude longitude start_date end_date parameter_set
      custom_parameters temporal_api max_retries retry_delay
    = request_loop transport max_retries retry_delay 0 \<lparr>attempts = 0, sleeps = [], warnings = snd url\<rparr>"
  using assms by (simp add: fetch_data_def)


lemmas strptime_eval =
  strptime_def fmt_compact_def fmt_dashed_def two_digits_def one_digit_def digit_val_def
  space_digit_def days_in_month_def is_leap_def midnight_def

lemmas instant_eval =
  instant_def toordinal_def days_before_year_def days_before_month_def days_in_month_def
  is_leap_def day_micros_def upt_rec

lemma build_request_url_example:
  "build_request_url (client_init fixture_now) fixture_now (Fin 33.5731) (Fin (- 7.5898))
      ''20230601'' ''20230603'' (select_parameters ''essential'' None) ''daily''
    = Inr (\<lparr>q_temporal = ''daily'', q_start = ''20230601'', q_end = ''20230603'',
            q_latitude = Fin 33.5731, q_longitude = Fin (- 7.5898), q_community = ''ag'',
            q_parameters = essential, q_format = ''json''\<rparr>, [])"
  by (simp add: build_request_url_def validate_coordinates_def validate_dates_def strptime_eval
      instant_eval client_init_def fixture_now_def delta_days_def select_parameters_def
      pv_parameters_def)




lemma fetch_data_null_body:
  "fetch_data (client_init fixture_now) fixture_now (\<lambda>i. Returns JNull) (Fin 33.5731) (Fin (- 7.5898))
      ''20230601'' ''20230603'' ''essential'' None ''daily'' default_max_retries default_retry_delay
    = (\<lparr>attempts = 1, sleeps = [], warnings = []\<rparr>,
       Inl (Exn TypeError ''argument of type 'NoneType' is not iterable''))"
  unfolding fetch_data_loop [OF build_request_url_example]
  by (subst request_loop.simps)
     (simp add: default_max_retries_def try_request_def check_body_def has_error_message_def squote_def)


section \<open>Date validation of the client\<close>

lemma validate_dates_checks:
  "(strptime start_date fmt_compact = Inr s \<and> strptime end_date fmt_compact = Inr e
      \<and> instant s > instant e
     \<longrightarrow> validate_dates c now start_date end_date = Inl (Exn ValueError ''Start date must be before end date''))
   \<and> (strptime start_date fmt_compact = Inr s \<and> strptime end_date fmt_compact = Inr e
      \<and> instant s < instant (min_date c)
     \<longrightarrow> (\<exists>msg. validate_dates c now start_date end_date = Inl (Exn ValueError msg)))
   \<and> ((\<exists>err. strptime start_date fmt_compact = Inl err) \<or> (\<exists>err. strptime end_date fmt_compact = Inl err)
     \<longrightarrow> validate_dates c now start_date end_date = Inl (Exn ValueError ''Dates must be in YYYYMMDD format''))
   \<and> (strptime start_date fmt_compact = Inr s \<and> strptime end_date fmt_compact = Inr e
      \<and> instant s \<le> instant e \<and> instant (min_date c) \<le> instant s
     \<longrightarrow> (\<exists>ws. validate_dates c now start_date end_date = Inr ws
            \<and> (instant e > max_date_instant c \<or> delta_days now e < 3 \<longrightarrow> ws \<noteq> [])))"
  by (auto simp: validate_dates_def split: sum.splits)

text \<open>
  Claim C8 at a failing input. The strings 202311 and 202312 are not in the eight-digit
  format, yet \<open>strptime\<close> reads them as 2023-01-01 and 2023-01-02 (the leading zero of
  month and day is optional) and the validation succeeds without a warning.
\<close>

theorem validate_dates_accepts_short_dates:
  "strptime ''202311'' fmt_compact = Inr (midnight \<lparr>year = 2023, month = 1, day = 1\<rparr>)
   \<and> strptime ''202312'' fmt_compact = Inr (midnight \<lparr>year = 2023, month = 1, day = 2\<rparr>)
   \<and> validate_dates (client_init fixture_now) fixture_now ''202311'' ''202312'' = Inr []"
  by (simp add: validate_dates_def strptime_eval instant_eval client_init_def fixture_now_def
      delta_days_def)

section \<open>The prediction endpoint\<close>

lemma call_predict_capacity:
  "call_predict h df [(''capacity'', c)]
     = Inl (Exn TypeError (''PVModelHandler.predict() got an unexpected keyword argument ''
                            @ squote @ ''capacity'' @ squote))"
  by (simp add: call_predict_def predict_parameters_def)

lemma respond_never_200:
  "respond h get_data r = (events, Inr resp) \<Longrightarrow> status resp = 400"
  by (auto simp: respond_def call_predict_capacity error_response_def
      split: if_splits sum.splits)

lemma generate_predictions_never_200:
  "status (snd (generate_predictions model_handler get_data request)) \<noteq> 200"
  by (auto simp: generate_predictions_def error_response_def
      split: option.splits sum.splits prod.splits dest: respond_never_200)

text \<open>
  Claim C1 at its own input. The data fetch succeeds with three rows and the handler's
  \<open>predict\<close> would return 5.0 for each of them, but the endpoint calls it with the
  keyword \<open>capacity\<close>, which \<open>predict(self, df)\<close> does not take: the call raises
  \<open>TypeError\<close> and the endpoint answers 500 with no prediction rows.
\<close>

theorem predictions_endpoint_scenario_fails:
  "predict scenario_handler scenario_frame = Inr [Fin 5, Fin 5, Fin 5]
   \<and> generate_predictions (Some scenario_handler) (\<lambda>latitude longitude start_date end_date. Inr scenario_frame)
        (Some scenario_request)
     = ([DataFetch (Fin 33.5731) (Fin (- 7.5898)) ''2023-06-01'' ''2023-06-03'', ModelCall],
        \<lparr>status = 500,
         body = ErrorBody (''Prediction generation failed: PVModelHandler.predict() got an unexpected keyword argument ''
                            @ squote @ ''capacity'' @ squote)\<rparr>)"
proof -
  have p: "predict scenario_handler scenario_frame = Inr [Fin 5, Fin 5, Fin 5]"
    by (simp add: predict_def scenario_handler_def scenario_frame_def validate_input_data_def
        df_empty_def model_predict_def const_model_def df_len_def preprocess_index
        numeral_3_eq_3)
  have s: "strptime ''2023-06-01'' fmt_dashed = Inr (midnight \<lparr>year = 2023, month = 6, day = 1\<rparr>)"
    by (simp add: strptime_eval)
  have e: "strptime ''2023-06-03'' fmt_dashed = Inr (midnight \<lparr>year = 2023, month = 6, day = 3\<rparr>)"
    by (simp add: strptime_eval)
  have i: "instant (midnight \<lparr>year = 2023, month = 6, day = 1\<rparr>) < instant (midnight \<lparr>year = 2023, month = 6, day = 3\<rparr>)"
    "delta_days (midnight \<lparr>year = 2023, month = 6, day = 3\<rparr>) (midnight \<lparr>year = 2023, month = 6, day = 1\<rparr>) = 2"
    by (simp_all add: instant_eval midnight_def delta_days_def)
  have "generate_predictions (Some scenario_handler) (\<lambda>latitude longitude start_date end_date. Inr scenario_frame)
        (Some scenario_request)
     = ([DataFetch (Fin 33.5731) (Fin (- 7.5898)) ''2023-06-01'' ''2023-06-03'', ModelCall],
        \<lparr>status = 500,
         body = ErrorBody (''Prediction generation failed: PVModelHandler.predict() got an unexpected keyword argument ''
                            @ squote @ ''capacity'' @ squote)\<rparr>)"
    using i
    by (simp add: generate_predictions_def read_request_def required_def scenario_request_def
        respond_def s e call_predict_capacity error_response_def scenario_handler_def
        scenario_frame_def df_empty_def)
  with p show ?thesis by simp
qed

lemma generate_predictions_bad_range:
  assumes "is_loaded h"
    and "j_latitude data = Some (JNumber latitude)" and "j_longitude data = Some (JNumber longitude)"
    and "j_capacity data = None \<or> (\<exists>c. j_capacity data = Some (JNumber c))"
    and "j_start_date data = Some start_date" and "j_end_date data = Some end_date"
    and "strptime start_date fmt_dashed = Inr start_dt" and "strptime end_date fmt_dashed = Inr end_dt"
    and "instant start_dt \<ge> instant end_dt \<or> delta_days end_dt start_dt > 365"
  shows "fst (generate_predictions (Some h) get_data (Some data)) = []
    \<and> status (snd (generate_predictions (Some h) get_data (Some data))) = 400"
proof -
  from assms(2-6) obtain r where r: "read_request data = Inr r"
    "p_start_date r = start_date" "p_end_date r = end_date"
    by (auto simp: read_request_def required_def)
  have "\<exists>resp. respond h get_data r = ([], Inr resp) \<and> status resp = 400"
  proof (cases "\<not> between (- 90) (p_latitude r) 90 \<or> \<not> between (- 180) (p_longitude r) 180")
    case True
    then show ?thesis by (simp add: respond_def error_response_def)
  next
    case False
    with assms(7-9) r(2,3) show ?thesis
      by (cases "instant start_dt \<ge> instant end_dt") (simp_all add: respond_def error_response_def)
  qed
  with assms(1) r(1) show ?thesis by (auto simp: generate_predictions_def)
qed

lemma generate_predictions_bad_range_no_calls:
  assumes "j_start_date data = Some start_date" and "j_end_date data = Some end_date"
    and "strptime start_date fmt_dashed = Inr start_dt" and "strptime end_date fmt_dashed = Inr end_dt"
    and "instant start_dt \<ge> instant end_dt \<or> delta_days end_dt start_dt > 365"
  shows "fst (generate_predictions model_handler get_data (Some data)) = []"
proof -
  have resp: "\<And>h r. read_request data = Inr r \<Longrightarrow> fst (respond h get_data r) = []"
  proof -
    fix h r assume "read_request data = Inr r"
    with assms(1,2) have "p_start_date r = start_date" "p_end_date r = end_date"
      by (auto simp: read_request_def required_def split: sum.splits)
    with assms(3-5) show "fst (respond h get_data r) = []"
      by (cases "instant start_dt \<ge> instant end_dt") (simp_all add: respond_def)
  qed
  show ?thesis
  proof (cases model_handler)
    case None
    then show ?thesis by (simp add: generate_predictions_def)
  next
    case (Some h)
    show ?thesis
    proof (cases "read_request data")
      case (Inl e)
      with Some show ?thesis by (simp add: generate_predictions_def)
    next
      case (Inr r)
      from resp [OF Inr, of h] Inr Some show ?thesis
        by (cases "respond h get_data r") (auto simp: generate_predictions_def split: sum.splits)
    qed
  qed
qed

text \<open>
  Claim C10. With a loaded handler and a request whose fields are present and
  convertible, a start date equal to or after the end date, or a range of more than 365
  days, is answered with status 400 and neither the data fetch nor the model is called;
  no call is made for such dates whatever the handler and the other fields are.
  The client's own \<open>validate_dates\<close> accepts every parsed range with start not after
  end and start not before the minimum date: equal dates and ranges of any length.
\<close>

theorem predictions_endpoint_date_rules:
  assumes "is_loaded h"
    and "j_latitude data = Some (JNumber latitude)" and "j_longitude data = Some (JNumber longitude)"
    and "j_capacity data = None \<or> (\<exists>c. j_capacity data = Some (JNumber c))"
    and "j_start_date data = Some start_date" and "j_end_date data = Some end_date"
    and "strptime start_date fmt_dashed = Inr start_dt" and "strptime end_date fmt_dashed = Inr end_dt"
    and "instant start_dt \<ge> instant end_dt \<or> delta_days end_dt start_dt > 365"
  shows "fst (generate_predictions (Some h) get_data (Some data)) = []
    \<and> status (snd (generate_predictions (Some h) get_data (Some data))) = 400
    \<and> (\<forall>model_handler. fst (generate_predictions model_handler get_data (Some data)) = [])
    \<and> (\<forall>c now s e sd ed.
          strptime s fmt_compact = Inr sd \<and> strptime e fmt_compact = Inr ed
          \<and> instant sd \<le> instant ed \<and> instant (min_date c) \<le> instant sd
          \<longrightarrow> (\<exists>ws. validate_dates c now s e = Inr ws))"
  using generate_predictions_bad_range [OF assms]
    generate_predictions_bad_range_no_calls [OF assms(5-9)] validate_dates_checks
  by blast

theorem predictions_endpoint_date_rules_witness:
  "fst (generate_predictions (Some scenario_handler) (\<lambda>latitude longitude start_date end_date. Inr scenario_frame)
      (Some (scenario_request\<lparr>j_end_date := Some ''2023-06-01''\<rparr>))) = []
   \<and> status (snd (generate_predictions (Some scenario_handler)
      (\<lambda>latitude longitude start_date end_date. Inr scenario_frame)
      (Some (scenario_request\<lparr>j_end_date := Some ''2023-06-01''\<rparr>)))) = 400
   \<and> validate_dates (client_init fixture_now) fixture_now ''20230601'' ''20230601'' = Inr []
   \<and> fst (generate_predictions (Some scenario_handler) (\<lambda>latitude longitude start_date end_date. Inr scenario_frame)
      (Some (scenario_request\<lparr>j_start_date := Some ''2022-01-01''\<rparr>))) = []
   \<and> status (snd (generate_predictions (Some scenario_handler)
      (\<lambda>latitude longitude start_date end_date. Inr scenario_frame)
      (Some (scenario_request\<lparr>j_start_date := Some ''2022-01-01''\<rparr>)))) = 400
   \<and> validate_dates (client_init fixture_now) fixture_now ''20220101'' ''20230603'' = Inr []"
proof -
  have loaded: "is_loaded scenario_handler" by (simp add: scenario_handler_def)
  have d1: "strptime ''2023-06-01'' fmt_dashed = Inr (midnight \<lparr>year = 2023, month = 6, day = 1\<rparr>)"
    and d3: "strptime ''2023-06-03'' fmt_dashed = Inr (midnight \<lparr>year = 2023, month = 6, day = 3\<rparr>)"
    and d0: "strptime ''2022-01-01'' fmt_dashed = Inr (midnight \<lparr>year = 2022, month = 1, day = 1\<rparr>)"
    by (simp_all add: strptime_eval)
  have same: "instant (midnight \<lparr>year = 2023, month = 6, day = 1\<rparr>) \<ge> instant (midnight \<lparr>year = 2023, month = 6, day = 1\<rparr>)
      \<or> delta_days (midnight \<lparr>year = 2023, month = 6, day = 1\<rparr>) (midnight \<lparr>year = 2023, month = 6, day = 1\<rparr>) > 365"
    by simp
  have far: "instant (midnight \<lparr>year = 2022, month = 1, day = 1\<rparr>) \<ge> instant (midnight \<lparr>year = 2023, month = 6, day = 3\<rparr>)
      \<or> delta_days (midnight \<lparr>year = 2023, month = 6, day = 3\<rparr>) (midnight \<lparr>year = 2022, month = 1, day = 1\<rparr>) > 365"
    by (simp add: instant_eval midnight_def delta_days_def)
  have a: "j_latitude (scenario_request\<lparr>j_end_date := Some ''2023-06-01''\<rparr>) = Some (JNumber (Fin 33.5731))"
    "j_longitude (scenario_request\<lparr>j_end_date := Some ''2023-06-01''\<rparr>) = Some (JNumber (Fin (- 7.5898)))"
    "j_capacity (scenario_request\<lparr>j_end_date := Some ''2023-06-01''\<rparr>) = None
      \<or> (\<exists>c. j_capacity (scenario_request\<lparr>j_end_date := Some ''2023-06-01''\<rparr>) = Some (JNumber c))"
    "j_start_date (scenario_request\<lparr>j_end_date := Some ''2023-06-01''\<rparr>) = Some ''2023-06-01''"
    "j_end_date (scenario_request\<lparr>j_end_date := Some ''2023-06-01''\<rparr>) = Some ''2023-06-01''"
    by (simp_all add: scenario_request_def)
  have b: "j_latitude (scenario_request\<lparr>j_start_date := Some ''2022-01-01''\<rparr>) = Some (JNumber (Fin 33.5731))"
    "j_longitude (scenario_request\<lparr>j_start_date := Some ''2022-01-01''\<rparr>) = Some (JNumber (Fin (- 7.5898)))"
    "j_capacity (scenario_request\<lparr>j_start_date := Some ''2022-01-01''\<rparr>) = None
      \<or> (\<exists>c. j_capacity (scenario_request\<lparr>j_start_date := Some ''2022-01-01''\<rparr>) = Some (JNumber c))"
    "j_start_date (scenario_request\<lparr>j_start_date := Some ''2022-01-01''\<rparr>) = Some ''2022-01-01''"
    "j_end_date (scenario_request\<lparr>j_start_date := Some ''2022-01-01''\<rparr>) = Some ''2023-06-03''"
    by (simp_all add: scenario_request_def)
  have c: "validate_dates (client_init fixture_now) fixture_now ''20230601'' ''20230601'' = Inr []"
    "validate_dates (client_init fixture_now) fixture_now ''20220101'' ''20230603'' = Inr []"
    by (simp_all add: validate_dates_def strptime_eval instant_eval client_init_def fixture_now_def
        delta_days_def)
  from predictions_endpoint_date_rules [OF loaded a d1 d1 same]
    predictions_endpoint_date_rules [OF loaded b d0 d3 far] c
  show ?thesis by simp
qed

end
